theory Spec2Isabelle
  imports Main "HOL-Library.Product_Lexorder"
begin

section \<open>Solitude: the night-cycle alarm clock (infrastructure/solitude.py)\<close>

text \<open>
  A shallow embedding of \<^verbatim>\<open>Config\<close> and \<^verbatim>\<open>Solitude\<close>. Python integers are \<open>int\<close>,
  Python strings are \<open>string\<close>, \<^verbatim>\<open>None\<close> is \<open>None\<close>. Everything the handlers read from
  outside the object (the clock, the UUID source, the two template files, the result of
  the subprocess, the result of writing the output file) is passed in as an explicit
  environment; everything they change (the two session fields, the logger, the output
  files, the commands handed to the subprocess) is an explicit state.
\<close>

subsection \<open>Python strings of numbers\<close>

definition digit_char :: "nat \<Rightarrow> char" where
  "digit_char d = ''0123456789'' ! d"

fun str_nat :: "nat \<Rightarrow> string" where
  "str_nat n = (if n < 10 then [digit_char n] else str_nat (n div 10) @ [digit_char (n mod 10)])"

declare str_nat.simps [simp del]

text \<open>\<^verbatim>\<open>str(i)\<close> for a Python integer.\<close>

definition str_int :: "int \<Rightarrow> string" where
  "str_int i = (if i < 0 then CHR ''-'' # str_nat (nat (- i)) else str_nat (nat i))"

text \<open>\<^verbatim>\<open>sep.join(xs)\<close>.\<close>

fun join :: "string \<Rightarrow> string list \<Rightarrow> string" where
  "join sep [] = []"
| "join sep [x] = x"
| "join sep (x # y # ys) = x @ sep @ join sep (y # ys)"

text \<open>The formats \<^verbatim>\<open>%02d\<close> and \<^verbatim>\<open>%04d\<close> on a non-negative number.\<close>

definition pad2 :: "nat \<Rightarrow> string" where
  "pad2 n = (if n < 10 then CHR ''0'' # str_nat n else str_nat n)"

definition pad4 :: "nat \<Rightarrow> string" where
  "pad4 n = replicate (4 - length (str_nat n)) (CHR ''0'') @ str_nat n"

subsection \<open>Python errors\<close>

datatype py_error =
    ValueError
  | OverflowError
  | OtherError string

text \<open>
  \<^verbatim>\<open>list(range(start, stop, step))\<close>: a zero step raises \<^verbatim>\<open>ValueError\<close>; the length is
  the one CPython computes.
\<close>

definition py_range :: "int \<Rightarrow> int \<Rightarrow> int \<Rightarrow> py_error + int list" where
  "py_range start stop step =
     (if step = 0 then Inl ValueError
      else
        let n = (if 0 < step
                 then (if start < stop then (stop - start - 1) div step + 1 else 0)
                 else (if stop < start then (start - stop - 1) div (- step) + 1 else 0))
        in Inr (map (\<lambda>k. start + int k * step) [0..<nat n]))"

subsection \<open>Config\<close>

record config =
  night_start :: int
  night_end :: int
  interval_minutes :: int
  working_dir :: string
  log_file :: string
  output_dir :: string
  first_breath_file :: string
  last_breath_file :: string
  env_file :: string
  claude_path :: string

text \<open>
  The local variable \<^verbatim>\<open>hours\<close> of \<^verbatim>\<open>get_night_hours\<close>; \<^verbatim>\<open>range(a, b)\<close> is
  \<open>[a..b - 1]\<close>.
\<close>

definition night_hours :: "config \<Rightarrow> int list" where
  "night_hours cfg =
     (let end_hour = (if night_end cfg > 0 then night_end cfg - 1 else 23)
      in if night_start cfg > end_hour
         then (let before_midnight = [night_start cfg..24 - 1];
                   after_midnight = [0..end_hour + 1 - 1]
               in before_midnight @ after_midnight)
         else [night_start cfg..end_hour + 1 - 1])"

definition get_night_hours :: "config \<Rightarrow> string" where
  "get_night_hours cfg = join '','' (map str_int (night_hours cfg))"

text \<open>The local variable \<^verbatim>\<open>minutes\<close> of \<^verbatim>\<open>get_minute_pattern\<close>.\<close>

definition minute_list :: "config \<Rightarrow> py_error + int list" where
  "minute_list cfg = py_range 0 60 (interval_minutes cfg)"

definition get_minute_pattern :: "config \<Rightarrow> py_error + string" where
  "get_minute_pattern cfg =
     (case minute_list cfg of
        Inl e \<Rightarrow> Inl e
      | Inr minutes \<Rightarrow> Inr (join '','' (map str_int minutes)))"

definition get_last_breath_time :: "config \<Rightarrow> string" where
  "get_last_breath_time cfg =
     (let hour = night_end cfg
      in if hour = 0 then ''12:00 AM''
         else if hour < 12 then str_int hour @ '':00 AM''
         else if hour = 12 then ''12:00 PM''
         else str_int (hour - 12) @ '':00 PM'')"

subsection \<open>Dates and clock readings\<close>

text \<open>
  A \<^verbatim>\<open>datetime.date\<close> is its three fields. \<^verbatim>\<open>datetime.now()\<close> is a date with an hour
  and a minute: the code reads nothing finer (\<^verbatim>\<open>now.hour\<close>, \<^verbatim>\<open>now.date()\<close> and
  \<^verbatim>\<open>strftime("%I:%M %p")\<close>).
\<close>

record date =
  year :: int
  month :: int
  day :: int

record datetime =
  date_of :: date
  hour :: int
  minute :: int

definition is_leap :: "int \<Rightarrow> bool" where
  "is_leap y = (y mod 4 = 0 \<and> (y mod 100 \<noteq> 0 \<or> y mod 400 = 0))"

definition days_in_month :: "int \<Rightarrow> int \<Rightarrow> int" where
  "days_in_month y m =
     (if m = 2 then (if is_leap y then 29 else 28)
      else if m = 4 \<or> m = 6 \<or> m = 9 \<or> m = 11 then 30
      else 31)"

text \<open>The dates Python can represent: 0001-01-01 to 9999-12-31.\<close>

definition valid_date :: "date \<Rightarrow> bool" where
  "valid_date d =
     (1 \<le> year d \<and> year d \<le> 9999 \<and> 1 \<le> month d \<and> month d \<le> 12 \<and>
      1 \<le> day d \<and> day d \<le> days_in_month (year d) (month d))"

definition valid_datetime :: "datetime \<Rightarrow> bool" where
  "valid_datetime t =
     (valid_date (date_of t) \<and> 0 \<le> hour t \<and> hour t \<le> 23 \<and> 0 \<le> minute t \<and> minute t \<le> 59)"

text \<open>
  \<^verbatim>\<open>d - timedelta(days=1)\<close>: the day before, and \<^verbatim>\<open>OverflowError\<close> before
  \<^verbatim>\<open>date.min\<close>.
\<close>

definition minus_one_day :: "date \<Rightarrow> py_error + date" where
  "minus_one_day d =
     (if 1 < day d then Inr (d\<lparr>day := day d - 1\<rparr>)
      else if 1 < month d
        then Inr (d\<lparr>month := month d - 1, day := days_in_month (year d) (month d - 1)\<rparr>)
      else if 1 < year d then Inr \<lparr>year = year d - 1, month = 12, day = 31\<rparr>
      else Inl OverflowError)"

text \<open>\<^verbatim>\<open>date.isoformat()\<close>, that is \<^verbatim>\<open>"%04d-%02d-%02d"\<close>.\<close>

definition isoformat :: "date \<Rightarrow> string" where
  "isoformat d = pad4 (nat (year d)) @ ''-'' @ pad2 (nat (month d)) @ ''-'' @ pad2 (nat (day d))"

text \<open>
  \<^verbatim>\<open>date.toordinal()\<close>, the number of the day counted from 0001-01-01 as day 1: the
  measure against which \<open>minus_one_day\<close> is the day before.
\<close>

definition days_before_year :: "int \<Rightarrow> int" where
  "days_before_year y = (let p = y - 1 in p * 365 + p div 4 - p div 100 + p div 400)"

definition days_before_month :: "int \<Rightarrow> int \<Rightarrow> int" where
  "days_before_month y m = sum_list (map (days_in_month y) [1..m - 1])"

definition toordinal :: "date \<Rightarrow> int" where
  "toordinal d = days_before_year (year d) + days_before_month (year d) (month d) + day d"

text \<open>Python compares dates and datetimes field by field, the year first.\<close>

definition date_key :: "date \<Rightarrow> int \<times> int \<times> int" where
  "date_key d = (year d, month d, day d)"

definition datetime_key :: "datetime \<Rightarrow> (int \<times> int \<times> int) \<times> int \<times> int" where
  "datetime_key t = (date_key (date_of t), hour t, minute t)"

text \<open>
  What \<^verbatim>\<open>datetime.now()\<close> can return: a date and time of day that exist, later than
  \<^verbatim>\<open>date.min\<close>.
\<close>

definition clock_reading :: "datetime \<Rightarrow> bool" where
  "clock_reading t = (valid_datetime t \<and> date_key (date_of t) \<noteq> (1, 1, 1))"

text \<open>\<^verbatim>\<open>now.strftime("%I:%M %p").lstrip("0")\<close>, in the C locale.\<close>

definition strftime_I_M_p :: "datetime \<Rightarrow> string" where
  "strftime_I_M_p t =
     (let h12 = (if hour t mod 12 = 0 then 12 else hour t mod 12)
      in pad2 (nat h12) @ '':'' @ pad2 (nat (minute t)) @ '' '' @
         (if hour t < 12 then ''AM'' else ''PM''))"

definition lstrip_zero :: "string \<Rightarrow> string" where
  "lstrip_zero s = dropWhile (\<lambda>c. c = CHR ''0'') s"

definition time_str :: "datetime \<Rightarrow> string" where
  "time_str t = lstrip_zero (strftime_I_M_p t)"

text \<open>
  \<^verbatim>\<open>str.strip()\<close>: a character is a code point below 256, and these are the ones for
  which \<^verbatim>\<open>str.isspace()\<close> holds.
\<close>

definition is_space :: "char \<Rightarrow> bool" where
  "is_space c =
     (c \<in> set [CHR 0x09, CHR 0x0A, CHR 0x0B, CHR 0x0C, CHR 0x0D, CHR 0x1C, CHR 0x1D, CHR 0x1E,
                CHR 0x1F, CHR 0x20, CHR 0x85, CHR 0xA0])"

definition strip :: "string \<Rightarrow> string" where
  "strip s = rev (dropWhile is_space (rev (dropWhile is_space s)))"

text \<open>An \<^verbatim>\<open>Optional[str]\<close> inside an f-string.\<close>

definition fmt :: "string option \<Rightarrow> string" where
  "fmt x = (case x of None \<Rightarrow> ''None'' | Some s \<Rightarrow> s)"

subsection \<open>The Solitude object and its surroundings\<close>

datatype log_level = INFO | WARNING | ERROR

text \<open>
  The two fields of the object, and what the handlers act on: the records handed to the
  logger, the files of \<^verbatim>\<open>output_dir\<close> (by file name), and the argument lists handed to
  \<^verbatim>\<open>subprocess.run\<close>.
\<close>

record solitude =
  session_id :: "string option"
  tonight_date :: "string option"
  logger :: "(log_level \<times> string) list"
  output_files :: "string \<rightharpoonup> string"
  commands :: "string list list"

text \<open>The result of \<^verbatim>\<open>Path.read_text()\<close> and of \<^verbatim>\<open>subprocess.run\<close>.\<close>

datatype read_result = Text string | FileNotFoundError | ReadFailed py_error

datatype run_result =
    CompletedProcess int string string
  | TimeoutExpired
  | RunFailed string

text \<open>
  What one firing of a handler reads from outside: \<^verbatim>\<open>datetime.now()\<close> at each of the
  four places that call it (line 161 reached from line 173, line 161 reached from line
  237 or 294, line 183, line 214), \<^verbatim>\<open>str(uuid.uuid4())\<close>, the two template files,
  what \<^verbatim>\<open>subprocess.run\<close> does with the command (a completed process with return code,
  stdout and stderr; a timeout; any other exception, with its message), and what the
  file system does when the output file is written.
\<close>

text \<open>
  Writing the output file (lines 208 and 217-224): every \<^verbatim>\<open>f.write\<close> goes through;
  or creating the directory or opening the file raises, with nothing written; or a
  write (or the closing flush) raises after the first \<open>k\<close> characters of what the
  handler writes have reached the file. The string is the exception's message.
\<close>

datatype write_result = Written | OpenFailed string | WriteFailed nat string

record env =
  now_is_first :: datetime
  now_tonight :: datetime
  now_prompt :: datetime
  now_log :: datetime
  uuid4 :: string
  first_breath_read :: read_result
  last_breath_read :: read_result
  subprocess_run :: run_result
  file_write :: write_result

definition log :: "log_level \<Rightarrow> string \<Rightarrow> solitude \<Rightarrow> solitude" where
  "log lvl msg st = st\<lparr>logger := logger st @ [(lvl, msg)]\<rparr>"

text \<open>\<^verbatim>\<open>Solitude.__init__\<close>: no session, no night.\<close>

definition init :: "(log_level \<times> string) list \<Rightarrow> (string \<rightharpoonup> string) \<Rightarrow> solitude" where
  "init lg files =
     \<lparr>session_id = None, tonight_date = None, logger = lg, output_files = files, commands = []\<rparr>"

definition get_tonight_date :: "config \<Rightarrow> datetime \<Rightarrow> py_error + string" where
  "get_tonight_date cfg now =
     (if hour now < night_end cfg
      then (case minus_one_day (date_of now) of
              Inl e \<Rightarrow> Inl e
            | Inr d \<Rightarrow> Inr (isoformat d))
      else Inr (isoformat (date_of now)))"

text \<open>The date whose ISO string \<^verbatim>\<open>_get_tonight_date\<close> returns, when it returns.\<close>

definition tonight :: "config \<Rightarrow> datetime \<Rightarrow> date" where
  "tonight cfg now =
     (if hour now < night_end cfg
      then (case minus_one_day (date_of now) of Inl e \<Rightarrow> date_of now | Inr d \<Rightarrow> d)
      else date_of now)"

definition is_first_breath :: "config \<Rightarrow> datetime \<Rightarrow> solitude \<Rightarrow> py_error + bool" where
  "is_first_breath cfg now st =
     (case get_tonight_date cfg now of
        Inl e \<Rightarrow> Inl e
      | Inr current_date \<Rightarrow>
          if session_id st = None then Inr True
          else if tonight_date st \<noteq> Some current_date then Inr True
          else Inr False)"

definition build_prompt ::
  "config \<Rightarrow> env \<Rightarrow> bool \<Rightarrow> bool \<Rightarrow> solitude \<Rightarrow> (py_error + string) \<times> solitude" where
  "build_prompt cfg ev is_first is_last st =
     (let ts = time_str (now_prompt ev)
      in if is_last then
           (case last_breath_read ev of
              Text last_breath \<Rightarrow>
                (Inr (''It's '' @ ts @ ''.\<newline>\<newline>'' @ last_breath), st)
            | FileNotFoundError \<Rightarrow>
                (Inr (''It's '' @ ts @ ''. The night ends. Rest well.''),
                 log WARNING (''Last breath file not found: '' @ last_breath_file cfg) st)
            | ReadFailed e \<Rightarrow> (Inl e, st))
         else if is_first then
           (case first_breath_read ev of
              Text first_breath \<Rightarrow>
                (Inr (''It's '' @ ts @ ''. Your last heartbeat tonight will be at '' @
                      get_last_breath_time cfg @ ''.\<newline>\<newline>'' @ first_breath), st)
            | FileNotFoundError \<Rightarrow>
                (Inr (''It's '' @ ts @ ''. The night begins. You have time alone.''),
                 log WARNING (''First breath file not found: '' @ first_breath_file cfg) st)
            | ReadFailed e \<Rightarrow> (Inl e, st))
         else (Inr (''It's '' @ ts @ ''. You have time alone.''), st))"

text \<open>The name of tonight's file inside \<^verbatim>\<open>output_dir\<close>.\<close>

definition get_output_log_path :: "solitude \<Rightarrow> string" where
  "get_output_log_path st = fmt (tonight_date st) @ ''.log''"

text \<open>
  \<^verbatim>\<open>log_output\<close> appends to the file (\<^verbatim>\<open>open(log_path, "a")\<close> creates it) what its
  \<^verbatim>\<open>f.write\<close> calls write, in order: two header lines when \<open>is_first\<close>, the timestamp
  line, the stripped output, two newlines. When the file system fails it raises, and
  what was written before the failure stays in the file.
\<close>

definition log_output :: "env \<Rightarrow> string \<Rightarrow> bool \<Rightarrow> solitude \<Rightarrow> string option \<times> solitude" where
  "log_output ev output is_first st =
     (let log_path = get_output_log_path st;
          ts = time_str (now_log ev);
          old = (case output_files st log_path of None \<Rightarrow> [] | Some c \<Rightarrow> c);
          writes = (if is_first
                    then [''=== Night of '' @ fmt (tonight_date st) @ '' ===\<newline>'',
                          ''Session: '' @ fmt (session_id st) @ ''\<newline>\<newline>'']
                    else []) @
                   [''--- '' @ ts @ '' ---\<newline>'', strip output, ''\<newline>\<newline>'']
      in case file_write ev of
           OpenFailed msg \<Rightarrow> (Some msg, st)
         | WriteFailed k msg \<Rightarrow>
             (Some msg,
              st\<lparr>output_files := (output_files st)(log_path \<mapsto> old @ take k (concat writes))\<rparr>)
         | Written \<Rightarrow>
             (None, st\<lparr>output_files := (output_files st)(log_path \<mapsto> old @ concat writes)\<rparr>))"

text \<open>
  The \<^verbatim>\<open>try\<close> statement of both handlers (lines 257-280 and 305-327): they differ in
  the flag passed to \<^verbatim>\<open>log_output\<close> and in the closing message. Every exception is
  caught, so the block always ends normally.
\<close>

definition run_claude :: "env \<Rightarrow> string list \<Rightarrow> bool \<Rightarrow> string \<Rightarrow> solitude \<Rightarrow> solitude" where
  "run_claude ev cmd is_first done_msg st =
     (let st1 = st\<lparr>commands := commands st @ [cmd]\<rparr>
      in case subprocess_run ev of
           TimeoutExpired \<Rightarrow> log ERROR ''Claude timed out after 15 minutes'' st1
         | RunFailed e \<Rightarrow> log ERROR (''Error running claude: '' @ e) st1
         | CompletedProcess returncode stdout stderr \<Rightarrow>
             if returncode \<noteq> 0
             then log ERROR (''stderr: '' @ stderr)
                    (log ERROR (''Claude exited with code '' @ str_int returncode) st1)
             else (case (if stdout \<noteq> [] then log_output ev stdout is_first st1
                         else (None, st1)) of
                     (Some e, st2) \<Rightarrow> log ERROR (''Error running claude: '' @ e) st2
                   | (None, st2) \<Rightarrow> log INFO done_msg st2))"

text \<open>Lines 236-237 and 293-294: the new session identity, then tonight's date.\<close>

definition new_session :: "config \<Rightarrow> env \<Rightarrow> solitude \<Rightarrow> py_error option \<times> solitude" where
  "new_session cfg ev st =
     (let st1 = st\<lparr>session_id := Some (uuid4 ev)\<rparr>
      in case get_tonight_date cfg (now_tonight ev) of
           Inl e \<Rightarrow> (Some e, st1)
         | Inr d \<Rightarrow> (None, st1\<lparr>tonight_date := Some d\<rparr>))"

text \<open>
  \<^verbatim>\<open>heartbeat\<close> up to the \<^verbatim>\<open>try\<close> (lines 233-255): the classification, the state at
  the moment of the invocation and the command, or the exception that ended the handler
  before it.
\<close>

definition heartbeat_setup ::
  "config \<Rightarrow> env \<Rightarrow> solitude \<Rightarrow> (py_error + bool \<times> string list) \<times> solitude" where
  "heartbeat_setup cfg ev st =
     (case is_first_breath cfg (now_is_first ev) st of
        Inl e \<Rightarrow> (Inl e, st)
      | Inr is_first \<Rightarrow>
          (case (if is_first
                 then (case new_session cfg ev st of
                         (Some e, st1) \<Rightarrow> (Some e, st1)
                       | (None, st1) \<Rightarrow>
                           (None, log INFO (''First breath of the night. Session: '' @
                                            fmt (session_id st1)) st1))
                 else (None, log INFO (''Continuing session '' @ fmt (session_id st)) st)) of
             (Some e, st2) \<Rightarrow> (Inl e, st2)
           | (None, st2) \<Rightarrow>
               (case build_prompt cfg ev is_first False st2 of
                  (Inl e, st3) \<Rightarrow> (Inl e, st3)
                | (Inr prompt, st3) \<Rightarrow>
                    (Inr (is_first,
                          if is_first
                          then [claude_path cfg, ''--session-id'', fmt (session_id st3),
                                ''--print'', prompt]
                          else [claude_path cfg, ''--resume'', fmt (session_id st3),
                                ''--print'', prompt]),
                     st3))))"

text \<open>The handler: \<open>None\<close> when it returns, \<open>Some e\<close> when it raises \<open>e\<close>.\<close>

definition heartbeat :: "config \<Rightarrow> env \<Rightarrow> solitude \<Rightarrow> py_error option \<times> solitude" where
  "heartbeat cfg ev st =
     (case heartbeat_setup cfg ev st of
        (Inl e, st1) \<Rightarrow> (Some e, st1)
      | (Inr (is_first, cmd), st1) \<Rightarrow>
          (None, run_claude ev cmd is_first ''Heartbeat complete'' st1))"

text \<open>\<^verbatim>\<open>last_breath\<close> up to the \<^verbatim>\<open>try\<close> (lines 289-303).\<close>

definition last_breath_setup ::
  "config \<Rightarrow> env \<Rightarrow> solitude \<Rightarrow> (py_error + string list) \<times> solitude" where
  "last_breath_setup cfg ev st =
     (let st0 = log INFO (''Last breath of the night. Session: '' @ fmt (session_id st)) st
      in case (if session_id st0 = None
               then (case new_session cfg ev st0 of
                       (Some e, st1) \<Rightarrow> (Some e, st1)
                     | (None, st1) \<Rightarrow>
                         (None, log WARNING
                                  ''No existing session for last breath; created new one'' st1))
               else (None, st0)) of
           (Some e, st2) \<Rightarrow> (Inl e, st2)
         | (None, st2) \<Rightarrow>
             (case build_prompt cfg ev False True st2 of
                (Inl e, st3) \<Rightarrow> (Inl e, st3)
              | (Inr prompt, st3) \<Rightarrow>
                  (Inr [claude_path cfg, ''--resume'', fmt (session_id st3), ''--print'', prompt],
                   st3)))"

definition last_breath :: "config \<Rightarrow> env \<Rightarrow> solitude \<Rightarrow> py_error option \<times> solitude" where
  "last_breath cfg ev st =
     (case last_breath_setup cfg ev st of
        (Inl e, st1) \<Rightarrow> (Some e, st1)
      | (Inr cmd, st1) \<Rightarrow>
          (None, run_claude ev cmd False ''Last breath complete. Goodnight, Alpha.'' st1))"

subsection \<open>Nights: the handlers fired one after the other\<close>

text \<open>
  The scheduler of \<^verbatim>\<open>run\<close> fires \<^verbatim>\<open>heartbeat\<close> and \<^verbatim>\<open>last_breath\<close> one at a time
  (\<^verbatim>\<open>max_instances=1\<close>) and keeps running when a job raises, so the object a handler
  leaves behind is the one the next handler finds.
\<close>

datatype wakeup = Ordinary env | Last env

fun fire :: "config \<Rightarrow> wakeup \<Rightarrow> solitude \<Rightarrow> solitude" where
  "fire cfg (Ordinary ev) st = snd (heartbeat cfg ev st)"
| "fire cfg (Last ev) st = snd (last_breath cfg ev st)"

fun fire_all :: "config \<Rightarrow> wakeup list \<Rightarrow> solitude \<Rightarrow> solitude" where
  "fire_all cfg [] st = st"
| "fire_all cfg (w # ws) st = fire_all cfg ws (fire cfg w st)"

text \<open>
  For each ordinary wakeup of a run, in order: the night date \<^verbatim>\<open>_is_first_breath\<close>
  computed and its answer. A last wakeup is not classified.
\<close>

fun classifications :: "config \<Rightarrow> wakeup list \<Rightarrow> solitude \<Rightarrow> (string \<times> bool) list" where
  "classifications cfg [] st = []"
| "classifications cfg (Ordinary ev # ws) st =
     (case (get_tonight_date cfg (now_is_first ev), is_first_breath cfg (now_is_first ev) st) of
        (Inr d, Inr b) \<Rightarrow> [(d, b)]
      | _ \<Rightarrow> []) @ classifications cfg ws (fire cfg (Ordinary ev) st)"
| "classifications cfg (Last ev # ws) st = classifications cfg ws (fire cfg (Last ev) st)"

text \<open>Every \<^verbatim>\<open>datetime.now()\<close> of a run, in the order the handlers are written.\<close>

fun readings :: "wakeup \<Rightarrow> datetime list" where
  "readings (Ordinary ev) = [now_is_first ev, now_tonight ev, now_prompt ev, now_log ev]"
| "readings (Last ev) = [now_tonight ev, now_prompt ev, now_log ev]"

text \<open>The clock never goes back during a run.\<close>

definition monotone_clock :: "wakeup list \<Rightarrow> bool" where
  "monotone_clock ws =
     sorted_wrt (\<lambda>a b. datetime_key a \<le> datetime_key b) (concat (map readings ws))"

text \<open>
  The two clock readings of an ordinary wakeup that enter \<^verbatim>\<open>_get_tonight_date\<close> (the
  one that classifies, the one that is stored) fall in the same night.
\<close>

fun steady_night :: "config \<Rightarrow> wakeup \<Rightarrow> bool" where
  "steady_night cfg (Ordinary ev) =
     (get_tonight_date cfg (now_is_first ev) = get_tonight_date cfg (now_tonight ev))"
| "steady_night cfg (Last ev) = True"

text \<open>How many wakeups of night \<open>d\<close> were classified as first.\<close>

definition firsts :: "string \<Rightarrow> (string \<times> bool) list \<Rightarrow> nat" where
  "firsts d cs = length (filter (\<lambda>(d', f). d' = d \<and> f) cs)"

text \<open>
  The invocation fails: a return code other than 0, the timeout, or any other exception
  of \<^verbatim>\<open>subprocess.run\<close>.
\<close>

definition invocation_failed :: "run_result \<Rightarrow> bool" where
  "invocation_failed r =
     (case r of
        CompletedProcess returncode stdout stderr \<Rightarrow> returncode \<noteq> 0
      | TimeoutExpired \<Rightarrow> True
      | RunFailed e \<Rightarrow> True)"

subsection \<open>A configuration and a night to compute with\<close>

text \<open>The schedule of the docstrings: nights from 22 to 5, a heartbeat every 20 minutes.\<close>

definition solitude_toml :: config where
  "solitude_toml =
     \<lparr>night_start = 22, night_end = 5, interval_minutes = 20,
      working_dir = ''/home/alpha'', log_file = ''/home/alpha/logs/solitude.log'',
      output_dir = ''/home/alpha/logs/solitude'',
      first_breath_file = ''/home/alpha/first_breath.md'',
      last_breath_file = ''/home/alpha/last_breath.md'',
      env_file = ''/home/alpha/.env'', claude_path = ''/usr/bin/claude''\<rparr>"

text \<open>
  A clock reading, and a firing during which the clock reads \<open>t\<close> at every call, the
  UUID source gives \<open>u\<close>, both templates are on disk, the subprocess does \<open>r\<close> and the
  output file is written in full.
\<close>

definition at :: "int \<Rightarrow> int \<Rightarrow> int \<Rightarrow> int \<Rightarrow> int \<Rightarrow> datetime" where
  "at y m d h mi = \<lparr>date_of = \<lparr>year = y, month = m, day = d\<rparr>, hour = h, minute = mi\<rparr>"

definition wake :: "datetime \<Rightarrow> string \<Rightarrow> run_result \<Rightarrow> env" where
  "wake t u r =
     \<lparr>now_is_first = t, now_tonight = t, now_prompt = t, now_log = t, uuid4 = u,
      first_breath_read = Text ''Good evening.'', last_breath_read = Text ''Good night.'',
      subprocess_run = r, file_write = Written\<rparr>"

text \<open>The object right after \<^verbatim>\<open>__init__\<close>, with an empty output directory.\<close>

definition started :: solitude where
  "started = init [] Map.empty"

text \<open>Two session identities, and the object in the middle of the night of 9 March 2024.\<close>

definition uuid_a :: string where
  "uuid_a = ''6f1c2a9e-1b7d-4c1e-9a53-0d2f8e4b7a10''"

definition uuid_b :: string where
  "uuid_b = ''c3a4e5f6-0718-4a2b-8c9d-e0f1a2b3c4d5''"

definition awake :: solitude where
  "awake = started\<lparr>session_id := Some uuid_a, tonight_date := Some ''2024-03-09''\<rparr>"

text \<open>
  Runs of the daemon. In \<open>first_fails\<close> the agent is not reachable at the first wakeup
  of the night and answers at the second; \<open>march_nights\<close> goes on to the last wakeup
  and to the first wakeup of the next night. In \<open>late_start\<close> the daemon starts just
  before the last wakeup.
\<close>

definition first_fails :: "wakeup list" where
  "first_fails =
     [Ordinary (wake (at 2024 3 9 22 0) uuid_a (CompletedProcess 1 [] ''unavailable'')),
      Ordinary (wake (at 2024 3 9 23 40) uuid_b (CompletedProcess 0 ''Still here.'' []))]"

definition march_nights :: "wakeup list" where
  "march_nights =
     first_fails @
     [Last (wake (at 2024 3 10 5 0) uuid_b (CompletedProcess 0 ''Sleep well.'' [])),
      Ordinary (wake (at 2024 3 10 22 0) uuid_b (CompletedProcess 0 ''A new night.'' []))]"

definition late_start :: "wakeup list" where
  "late_start =
     [Last (wake (at 2024 3 10 5 0) uuid_a (CompletedProcess 0 ''Sleep well.'' [])),
      Ordinary (wake (at 2024 3 10 22 0) uuid_b (CompletedProcess 0 ''A new night.'' []))]"

text \<open>
  A run in which the clock passes \<open>night_end\<close> between the two readings of one
  \<^verbatim>\<open>heartbeat\<close>: 04:59 when the wakeup is classified, 05:00 when the date is stored.
\<close>

definition straddling :: "wakeup list" where
  "straddling =
     [Ordinary ((wake (at 2024 3 10 4 59) uuid_a (CompletedProcess 0 ''Almost morning.'' []))
                  \<lparr>now_tonight := at 2024 3 10 5 0, now_prompt := at 2024 3 10 5 0,
                     now_log := at 2024 3 10 5 0\<rparr>),
      Ordinary (wake (at 2024 3 10 22 0) uuid_b (CompletedProcess 0 ''A new night.'' []))]"

section \<open>The schedule\<close>

lemma le_div_iff_int:
  assumes i: "0 < (i::int)"
  shows "(k \<le> a div i) = (k * i \<le> a)"
proof
  assume "k \<le> a div i"
  then have "k * i \<le> (a div i) * i" using i by (simp add: mult_right_mono)
  also have "\<dots> \<le> a" using i by (metis div_mult_mod_eq le_add_same_cancel1 pos_mod_sign)
  finally show "k * i \<le> a" .
next
  assume h: "k * i \<le> a"
  show "k \<le> a div i"
  proof (rule ccontr)
    assume "\<not> k \<le> a div i"
    then have "a div i + 1 \<le> k" by simp
    then have "(a div i + 1) * i \<le> k * i" using i by (simp add: mult_right_mono)
    moreover have "a < (a div i + 1) * i"
    proof -
      have e: "a div i * i + a mod i = a" by simp
      have "a mod i < i" using i by simp
      then have "a < a div i * i + i" using e by linarith
      then show ?thesis by (simp add: algebra_simps)
    qed
    ultimately show False using h by linarith
  qed
qed

lemma py_range_pos:
  assumes "0 < step"
  shows "py_range 0 stop step = Inr (map (\<lambda>k. int k * step) [0..<nat ((stop - 1) div step + 1)])"
proof (cases "0 < stop")
  case True
  then show ?thesis using assms by (simp add: py_range_def)
next
  case False
  then have "(stop - 1) div step < 0" using assms by (simp add: div_neg_pos_less0)
  then show ?thesis using assms False by (simp add: py_range_def)
qed

text \<open>
  C1, as the code has it. With \<open>night_start\<close> and \<open>night_end\<close> in 0..23,
  \<^verbatim>\<open>get_night_hours\<close> takes \<open>end_hour = night_end - 1\<close> (23 when \<open>night_end = 0\<close>); its
  hours are \<open>[night_start..23]\<close> followed by \<open>[0..end_hour]\<close> when
  \<open>night_start > end_hour\<close> and \<open>[night_start..end_hour]\<close> otherwise; the string returned
  is these hours joined by commas; no hour occurs twice; and \<open>night_end\<close> is among the
  hours exactly when \<open>night_start = night_end\<close>, the configuration whose hours are the
  whole day.
\<close>

theorem night_hours_range:
  assumes "0 \<le> night_start cfg" and "night_start cfg \<le> 23"
    and "0 \<le> night_end cfg" and "night_end cfg \<le> 23"
  shows "night_hours cfg =
           (let end_hour = (if night_end cfg = 0 then 23 else night_end cfg - 1)
            in if night_start cfg > end_hour then [night_start cfg..23] @ [0..end_hour]
               else [night_start cfg..end_hour])
         \<and> get_night_hours cfg = join '','' (map str_int (night_hours cfg))
         \<and> distinct (night_hours cfg)
         \<and> (night_end cfg \<in> set (night_hours cfg) \<longleftrightarrow> night_start cfg = night_end cfg)"
  using assms by (auto simp: night_hours_def Let_def get_night_hours_def)

theorem night_hours_range_witness:
  "0 \<le> night_start solitude_toml \<and> night_start solitude_toml \<le> 23 \<and>
   0 \<le> night_end solitude_toml \<and> night_end solitude_toml \<le> 23 \<and>
   night_hours solitude_toml = [22, 23, 0, 1, 2, 3, 4] \<and>
   distinct (night_hours solitude_toml) \<and>
   night_end solitude_toml \<notin> set (night_hours solitude_toml)"
  using night_hours_range [of solitude_toml]
  by (simp add: solitude_toml_def Let_def upto_rec1)

text \<open>
  C1 as stated fails where \<open>night_start = night_end\<close>: from 5 to 5 the hours are
  5, ..., 23, 0, ..., 4, and 5 is one of them.
\<close>

theorem night_hours_contains_night_end:
  "0 \<le> night_start (solitude_toml\<lparr>night_start := 5\<rparr>) \<and>
   night_start (solitude_toml\<lparr>night_start := 5\<rparr>) \<le> 23 \<and>
   0 \<le> night_end (solitude_toml\<lparr>night_start := 5\<rparr>) \<and>
   night_end (solitude_toml\<lparr>night_start := 5\<rparr>) \<le> 23 \<and>
   night_hours (solitude_toml\<lparr>night_start := 5\<rparr>) =
     [5, 6, 7, 8, 9, 10, 11, 12, 13, 14, 15, 16, 17, 18, 19, 20, 21, 22, 23, 0, 1, 2, 3, 4] \<and>
   night_end (solitude_toml\<lparr>night_start := 5\<rparr>) \<in>
     set (night_hours (solitude_toml\<lparr>night_start := 5\<rparr>))"
  by (simp add: solitude_toml_def night_hours_def Let_def upto_rec1)

text \<open>
  C9. With \<open>interval_minutes\<close> in 1..60, \<^verbatim>\<open>get_minute_pattern\<close> does not raise; its
  minutes are exactly the multiples of \<open>interval_minutes\<close> from 0 to 59, in increasing
  order and starting at 0; the string returned is these minutes joined by commas; and
  there are \<open>60 div interval_minutes\<close> of them when \<open>interval_minutes\<close> divides 60.
\<close>

theorem minute_pattern_multiples:
  assumes i: "0 < interval_minutes cfg" "interval_minutes cfg \<le> 60"
  shows "\<exists>ms. minute_list cfg = Inr ms
     \<and> get_minute_pattern cfg = Inr (join '','' (map str_int ms))
     \<and> ms = map (\<lambda>k. int k * interval_minutes cfg) [0..<length ms]
     \<and> set ms = {m. 0 \<le> m \<and> m < 60 \<and> interval_minutes cfg dvd m}
     \<and> sorted_wrt (<) ms \<and> hd ms = 0
     \<and> (interval_minutes cfg dvd 60 \<longrightarrow> int (length ms) = 60 div interval_minutes cfg)"
proof -
  define s where "s = interval_minutes cfg"
  define n where "n = nat (59 div s + 1)"
  define ms where "ms = map (\<lambda>k. int k * s) [0..<n]"
  have s: "0 < s" "s \<le> 60" using i by (simp_all add: s_def)
  have ml: "minute_list cfg = Inr ms"
    using s py_range_pos [of s 60] by (simp add: minute_list_def ms_def n_def s_def)
  have n_iff: "k < n \<longleftrightarrow> int k * s < 60" for k
  proof -
    have "k < n \<longleftrightarrow> int k \<le> 59 div s" by (auto simp: n_def)
    also have "\<dots> \<longleftrightarrow> int k * s \<le> 59" using s by (simp add: le_div_iff_int)
    finally show ?thesis by auto
  qed
  have npos: "0 < n" using n_iff [of 0] by simp
  have shape: "ms = map (\<lambda>k. int k * s) [0..<length ms]" by (simp add: ms_def)
  have set_ms: "set ms = {m. 0 \<le> m \<and> m < 60 \<and> s dvd m}"
  proof (intro set_eqI iffI)
    fix m assume "m \<in> set ms"
    then obtain k where "k < n" "m = int k * s" by (auto simp: ms_def)
    then show "m \<in> {m. 0 \<le> m \<and> m < 60 \<and> s dvd m}" using s n_iff [of k] by simp
  next
    fix m assume "m \<in> {m. 0 \<le> m \<and> m < 60 \<and> s dvd m}"
    then have m: "0 \<le> m" "m < 60" "s dvd m" by simp_all
    then obtain q where q: "m = s * q" by (auto simp: dvd_def)
    have "0 \<le> q" using m(1) s(1) q by (simp add: zero_le_mult_iff)
    then obtain k where k: "q = int k" using nonneg_int_cases by blast
    have "k < n" using n_iff [of k] m(2) q k by (simp add: mult.commute)
    then show "m \<in> set ms" using q k by (auto simp: ms_def mult.commute)
  qed
  have sorted: "sorted_wrt (<) ms"
    using s by (simp add: ms_def sorted_wrt_map sorted_wrt_iff_nth_less)
  have hd0: "hd ms = 0" using npos by (simp add: ms_def hd_map upt_conv_Cons)
  have len: "int (length ms) = 60 div s" if "s dvd 60"
  proof -
    from that obtain q where q: "60 = s * q" by (auto simp: dvd_def)
    have "(59::int) = s * (q - 1) + (s - 1)" using q by (simp add: algebra_simps)
    then have "59 div s = (s * (q - 1) + (s - 1)) div s" by (rule arg_cong)
    also have "\<dots> = (q - 1) + (s - 1) div s" using s by (simp only: div_mult_self4)
    also have "(s - 1) div s = 0" using s by (simp add: div_pos_pos_trivial)
    finally have "59 div s = q - 1" by simp
    moreover have "60 div s = q"
    proof -
      have "60 div s = (s * q) div s" using q by (rule arg_cong)
      then show ?thesis using s by simp
    qed
    moreover have "0 \<le> 59 div s" using s by (simp add: pos_imp_zdiv_nonneg_iff)
    ultimately show ?thesis by (simp add: ms_def n_def)
  qed
  show ?thesis using ml shape set_ms sorted hd0 len
    by (intro exI [of _ ms]) (simp add: get_minute_pattern_def s_def)
qed

theorem minute_pattern_multiples_witness:
  "0 < interval_minutes solitude_toml \<and> interval_minutes solitude_toml \<le> 60 \<and>
   interval_minutes solitude_toml dvd 60 \<and>
   minute_list solitude_toml = Inr [0, 20, 40] \<and>
   get_minute_pattern solitude_toml = Inr ''0,20,40'' \<and>
   int (length [0, 20, 40 :: int]) = 60 div interval_minutes solitude_toml"
proof -
  have ml: "minute_list solitude_toml = Inr [0, 20, 40]"
    by (simp add: minute_list_def py_range_def solitude_toml_def upt_rec)
  have gp: "get_minute_pattern solitude_toml = Inr ''0,20,40''"
    by (simp add: get_minute_pattern_def ml str_int_def str_nat.simps digit_char_def)
  from minute_pattern_multiples [of solitude_toml]
  obtain ms where "minute_list solitude_toml = Inr ms"
    and "interval_minutes solitude_toml dvd 60 \<longrightarrow>
         int (length ms) = 60 div interval_minutes solitude_toml"
    by (auto simp: solitude_toml_def)
  then show ?thesis using ml gp by (simp add: solitude_toml_def)
qed

section \<open>What the handlers leave alone\<close>

lemma log_fields [simp]:
  "session_id (log l m st) = session_id st"
  "tonight_date (log l m st) = tonight_date st"
  "output_files (log l m st) = output_files st"
  "commands (log l m st) = commands st"
  "logger (log l m st) = logger st @ [(l, m)]"
  by (simp_all add: log_def)

lemma build_prompt_fields [simp]:
  "session_id (snd (build_prompt cfg ev a b st)) = session_id st"
  "tonight_date (snd (build_prompt cfg ev a b st)) = tonight_date st"
  "output_files (snd (build_prompt cfg ev a b st)) = output_files st"
  "commands (snd (build_prompt cfg ev a b st)) = commands st"
  by (simp_all add: build_prompt_def Let_def split: read_result.splits)

lemma log_output_fields [simp]:
  "session_id (snd (log_output ev out f st)) = session_id st"
  "tonight_date (snd (log_output ev out f st)) = tonight_date st"
  "commands (snd (log_output ev out f st)) = commands st"
  by (simp_all add: log_output_def Let_def split: write_result.splits)

lemma log_output_frame:
  assumes "log_output ev out f s = (r, s')"
  shows "session_id s' = session_id s \<and> tonight_date s' = tonight_date s \<and> commands s' = commands s"
proof -
  have "s' = snd (log_output ev out f s)" using assms by simp
  then show ?thesis by simp
qed

lemma run_claude_fields [simp]:
  "session_id (run_claude ev cmd f m st) = session_id st"
  "tonight_date (run_claude ev cmd f m st) = tonight_date st"
  "commands (run_claude ev cmd f m st) = commands st @ [cmd]"
  by (auto simp: run_claude_def Let_def split: run_result.splits prod.splits option.splits
           dest!: log_output_frame)

lemma run_claude_failed:
  "invocation_failed (subprocess_run ev) \<Longrightarrow> output_files (run_claude ev cmd f m st) = output_files st"
  by (auto simp: run_claude_def invocation_failed_def Let_def split: run_result.splits)


lemma new_session_fields [simp]:
  "session_id (snd (new_session cfg ev st)) = Some (uuid4 ev)"
  "output_files (snd (new_session cfg ev st)) = output_files st"
  "commands (snd (new_session cfg ev st)) = commands st"
  by (simp_all add: new_session_def Let_def split: sum.splits)

lemma new_session_frame:
  assumes "new_session cfg ev s = (r, s')"
  shows "session_id s' = Some (uuid4 ev) \<and> output_files s' = output_files s \<and> commands s' = commands s"
proof -
  have "s' = snd (new_session cfg ev s)" using assms by simp
  then show ?thesis by simp
qed

lemma build_prompt_text:
  "fst (build_prompt cfg ev a b s) = fst (build_prompt cfg ev a b s')"
  by (simp add: build_prompt_def Let_def split: read_result.splits)

lemma build_prompt_frame:
  assumes "build_prompt cfg ev a b s = (r, s')"
  shows "session_id s' = session_id s \<and> tonight_date s' = tonight_date s \<and>
         output_files s' = output_files s \<and> commands s' = commands s \<and>
         (\<forall>s2. fst (build_prompt cfg ev a b s2) = r)"
proof -
  have "s' = snd (build_prompt cfg ev a b s)" using assms by simp
  moreover have "fst (build_prompt cfg ev a b s2) = r" for s2
    using assms build_prompt_text [of cfg ev a b s2 s] by simp
  ultimately show ?thesis by simp
qed

lemma get_tonight_date_ok:
  assumes "1 < year (date_of now)"
  shows "\<exists>d. get_tonight_date cfg now = Inr d"
  using assms by (simp add: get_tonight_date_def minus_one_day_def)

lemma heartbeat_setup_reached:
  assumes "heartbeat_setup cfg ev st = (Inr (f, cmd), st1)"
  shows "is_first_breath cfg (now_is_first ev) st = Inr f"
    and "output_files st1 = output_files st"
    and "commands st1 = commands st"
    and "session_id st1 = (if f then Some (uuid4 ev) else session_id st)"
    and "get_tonight_date cfg (if f then now_tonight ev else now_is_first ev) =
           Inr (fmt (tonight_date st1))"
    and "tonight_date st1 \<noteq> None" and "session_id st1 \<noteq> None"
    and "\<exists>prompt. cmd = [claude_path cfg, if f then ''--session-id'' else ''--resume'',
           fmt (session_id st1), ''--print'', prompt] \<and> fst (build_prompt cfg ev f False st1) = Inr prompt"
  using assms
  by (auto simp: heartbeat_setup_def is_first_breath_def new_session_def Let_def fmt_def
           split: sum.splits prod.splits option.splits if_splits
           dest!: build_prompt_frame)


lemma is_first_breath_middle:
  assumes "session_id st \<noteq> None" and "tonight_date st = Some d"
    and "get_tonight_date cfg t = Inr d"
  shows "is_first_breath cfg t st = Inr False"
  using assms by (simp add: is_first_breath_def)

lemma heartbeat_session:
  assumes "is_first_breath cfg (now_is_first ev) st = Inr f"
    and "get_tonight_date cfg (now_tonight ev) = Inr d"
  shows "session_id (snd (heartbeat cfg ev st)) = (if f then Some (uuid4 ev) else session_id st)"
    and "tonight_date (snd (heartbeat cfg ev st)) = (if f then Some d else tonight_date st)"
  using assms
  by (auto simp: heartbeat_def heartbeat_setup_def new_session_def Let_def
           split: sum.splits prod.splits option.splits if_splits
           dest!: build_prompt_frame)

section \<open>The example night, computed\<close>

lemma night_at_2340: "get_tonight_date solitude_toml (at 2024 3 9 23 40) = Inr ''2024-03-09''"
  by code_simp

lemma time_str_2340: "time_str (at 2024 3 9 23 40) = ''11:40 PM''"
  by code_simp

lemma night_at_0020: "get_tonight_date solitude_toml (at 2024 3 10 0 20) = Inr ''2024-03-09''"
  by (simp add: get_tonight_date_def solitude_toml_def at_def minus_one_day_def isoformat_def pad4_def pad2_def
       str_nat.simps digit_char_def)

lemma solitude_toml_fields [simp]:
  "night_start solitude_toml = 22" "night_end solitude_toml = 5"
  "interval_minutes solitude_toml = 20"
  "claude_path solitude_toml = ''/usr/bin/claude''"
  "first_breath_file solitude_toml = ''/home/alpha/first_breath.md''"
  "last_breath_file solitude_toml = ''/home/alpha/last_breath.md''"
  by (simp_all add: solitude_toml_def)

lemma wake_fields [simp]:
  "now_is_first (wake t u r) = t" "now_tonight (wake t u r) = t"
  "now_prompt (wake t u r) = t" "now_log (wake t u r) = t" "uuid4 (wake t u r) = u"
  "first_breath_read (wake t u r) = Text ''Good evening.''"
  "last_breath_read (wake t u r) = Text ''Good night.''"
  "subprocess_run (wake t u r) = r" "file_write (wake t u r) = Written"
  by (simp_all add: wake_def)

lemma at_fields [simp]:
  "year (date_of (at y m d h mi)) = y" "month (date_of (at y m d h mi)) = m"
  "day (date_of (at y m d h mi)) = d" "hour (at y m d h mi) = h" "minute (at y m d h mi) = mi"
  by (simp_all add: at_def)

lemma started_fields [simp]:
  "session_id started = None" "tonight_date started = None" "logger started = []"
  "output_files started = Map.empty" "commands started = []"
  by (simp_all add: started_def init_def)

lemma awake_fields [simp]:
  "session_id awake = Some uuid_a" "tonight_date awake = Some ''2024-03-09''" "logger awake = []"
  "output_files awake = Map.empty" "commands awake = []"
  by (simp_all add: awake_def)

lemma time_str_0500: "time_str (at 2024 3 10 5 0) = ''5:00 AM''"
  by code_simp

lemma night_at_0500: "get_tonight_date solitude_toml (at 2024 3 10 5 0) = Inr ''2024-03-10''"
  by code_simp

lemma setup_at_2340: "heartbeat_setup solitude_toml (wake (at 2024 3 9 23 40) uuid_b TimeoutExpired) awake =
    (Inr (False, [''/usr/bin/claude'', ''--resume'', uuid_a, ''--print'', ''It's 11:40 PM. You have time alone.'']),
     log INFO (''Continuing session '' @ uuid_a) awake)"
  by (simp add: heartbeat_setup_def is_first_breath_def night_at_2340 time_str_2340 build_prompt_def fmt_def)

section \<open>Prompts\<close>

text \<open>
  C10. Called with both \<open>is_first\<close> and \<open>is_last\<close> true, \<^verbatim>\<open>build_prompt\<close> does what it
  does with \<open>is_last\<close> alone: the \<open>is_last\<close> branch is tested first. The result is the
  last-breath prompt (the template after the time, or the farewell line when the file is
  missing), and the first-breath template is not looked at.
\<close>

theorem build_prompt_last_wins:
  "build_prompt cfg ev True True st = build_prompt cfg ev False True st \<and>
   build_prompt cfg ev True True st =
     (case last_breath_read ev of
        Text template \<Rightarrow>
          (Inr (''It's '' @ time_str (now_prompt ev) @ ''.\<newline>\<newline>'' @ template), st)
      | FileNotFoundError \<Rightarrow>
          (Inr (''It's '' @ time_str (now_prompt ev) @ ''. The night ends. Rest well.''),
           log WARNING (''Last breath file not found: '' @ last_breath_file cfg) st)
      | ReadFailed e \<Rightarrow> (Inl e, st))"
  by (simp add: build_prompt_def Let_def)

text \<open>
  C7. When the night-ends template is missing, \<^verbatim>\<open>build_prompt\<close> for a last wakeup
  returns the farewell line after the current time string and logs a warning; it does
  not raise, and \<^verbatim>\<open>last_breath\<close> goes on to hand this prompt to the agent with
  \<^verbatim>\<open>--resume\<close> and returns (given a session, or a clock from which tonight's date can
  be computed to make one). When the template is there, the prompt carries the text read
  at this call, whatever the object held before: nothing is cached.
\<close>

theorem last_breath_prompt_fallback:
  "(last_breath_read ev = FileNotFoundError \<longrightarrow>
      build_prompt cfg ev is_first True st =
        (Inr (''It's '' @ time_str (now_prompt ev) @ ''. The night ends. Rest well.''),
         log WARNING (''Last breath file not found: '' @ last_breath_file cfg) st) \<and>
      (session_id st \<noteq> None \<or> 1 < year (date_of (now_tonight ev)) \<longrightarrow>
         fst (last_breath cfg ev st) = None \<and>
         (\<exists>sid. commands (snd (last_breath cfg ev st)) =
            commands st @
            [[claude_path cfg, ''--resume'', sid, ''--print'',
              ''It's '' @ time_str (now_prompt ev) @ ''. The night ends. Rest well.'']])))
   \<and> (\<forall>template. last_breath_read ev = Text template \<longrightarrow>
        build_prompt cfg ev is_first True st =
          (Inr (''It's '' @ time_str (now_prompt ev) @ ''.\<newline>\<newline>'' @ template), st))"
proof -
  have fresh: "build_prompt cfg ev is_first True st =
          (Inr (''It's '' @ time_str (now_prompt ev) @ ''.\<newline>\<newline>'' @ template), st)"
    if "last_breath_read ev = Text template" for template
    using that by (simp add: build_prompt_def Let_def)
  have missing: "build_prompt cfg ev is_first True st =
        (Inr (''It's '' @ time_str (now_prompt ev) @ ''. The night ends. Rest well.''),
         log WARNING (''Last breath file not found: '' @ last_breath_file cfg) st) \<and>
      (session_id st \<noteq> None \<or> 1 < year (date_of (now_tonight ev)) \<longrightarrow>
         fst (last_breath cfg ev st) = None \<and>
         (\<exists>sid. commands (snd (last_breath cfg ev st)) =
            commands st @
            [[claude_path cfg, ''--resume'', sid, ''--print'',
              ''It's '' @ time_str (now_prompt ev) @ ''. The night ends. Rest well.'']]))"
    if nf: "last_breath_read ev = FileNotFoundError"
  proof -
    have bp: "build_prompt cfg ev a True s =
           (Inr (''It's '' @ time_str (now_prompt ev) @ ''. The night ends. Rest well.''),
            log WARNING (''Last breath file not found: '' @ last_breath_file cfg) s)" for a s
      using nf by (simp add: build_prompt_def Let_def)
    have "fst (last_breath cfg ev st) = None \<and>
              (\<exists>sid. commands (snd (last_breath cfg ev st)) =
                 commands st @
                 [[claude_path cfg, ''--resume'', sid, ''--print'',
                   ''It's '' @ time_str (now_prompt ev) @ ''. The night ends. Rest well.'']])"
      if "session_id st \<noteq> None \<or> 1 < year (date_of (now_tonight ev))"
    proof (cases "session_id st")
      case None
      then have "1 < year (date_of (now_tonight ev))" using that by simp
      then obtain d where "get_tonight_date cfg (now_tonight ev) = Inr d"
        using get_tonight_date_ok by blast
      then show ?thesis using None
        by (simp add: last_breath_def last_breath_setup_def bp new_session_def Let_def)
    next
      case (Some s)
      then show ?thesis
        by (simp add: last_breath_def last_breath_setup_def bp Let_def)
    qed
    then show ?thesis using bp by blast
  qed
  show ?thesis using fresh missing by blast
qed

theorem last_breath_prompt_fallback_witness:
  "last_breath_read
     ((wake (at 2024 3 10 5 0) uuid_b (CompletedProcess 0 ''Sleep well.'' ''''))
        \<lparr>last_breath_read := FileNotFoundError\<rparr>) = FileNotFoundError \<and>
   session_id awake \<noteq> None \<and>
   build_prompt solitude_toml
     ((wake (at 2024 3 10 5 0) uuid_b (CompletedProcess 0 ''Sleep well.'' ''''))
        \<lparr>last_breath_read := FileNotFoundError\<rparr>) False True awake =
     (Inr ''It's 5:00 AM. The night ends. Rest well.'',
      log WARNING ''Last breath file not found: /home/alpha/last_breath.md'' awake) \<and>
   fst (last_breath solitude_toml
     ((wake (at 2024 3 10 5 0) uuid_b (CompletedProcess 0 ''Sleep well.'' ''''))
        \<lparr>last_breath_read := FileNotFoundError\<rparr>) awake) = None \<and>
   commands (snd (last_breath solitude_toml
     ((wake (at 2024 3 10 5 0) uuid_b (CompletedProcess 0 ''Sleep well.'' ''''))
        \<lparr>last_breath_read := FileNotFoundError\<rparr>) awake)) =
     [[''/usr/bin/claude'', ''--resume'', uuid_a, ''--print'',
       ''It's 5:00 AM. The night ends. Rest well.'']] \<and>
   last_breath_read (wake (at 2024 3 10 5 0) uuid_b (CompletedProcess 0 ''Sleep well.'' '''')) =
     Text ''Good night.'' \<and>
   build_prompt solitude_toml
     (wake (at 2024 3 10 5 0) uuid_b (CompletedProcess 0 ''Sleep well.'' '''')) False True awake =
     (Inr ''It's 5:00 AM.\<newline>\<newline>Good night.'', awake)"
proof -
  let ?ev2 = "wake (at 2024 3 10 5 0) uuid_b (CompletedProcess 0 ''Sleep well.'' '''')"
  let ?ev1 = "?ev2\<lparr>last_breath_read := FileNotFoundError\<rparr>"
  have a: "last_breath_read ?ev1 = FileNotFoundError" by simp
  have b: "session_id awake \<noteq> None" by simp
  have c: "last_breath_read ?ev2 = Text ''Good night.''" by simp
  have p1: "now_prompt ?ev1 = at 2024 3 10 5 0" by simp
  have sid: "commands (snd (last_breath solitude_toml ?ev1 awake)) = commands awake @ [[u1, u2, sid, u3, u4]]
     \<Longrightarrow> sid = uuid_a" for u1 u2 u3 u4 sid
    by (simp add: last_breath_def last_breath_setup_def build_prompt_def fmt_def)
  from last_breath_prompt_fallback [of ?ev1 solitude_toml False awake] a b sid
  have 1: "build_prompt solitude_toml ?ev1 False True awake =
     (Inr ''It's 5:00 AM. The night ends. Rest well.'',
      log WARNING ''Last breath file not found: /home/alpha/last_breath.md'' awake) \<and>
     fst (last_breath solitude_toml ?ev1 awake) = None \<and>
     commands (snd (last_breath solitude_toml ?ev1 awake)) =
     [[''/usr/bin/claude'', ''--resume'', uuid_a, ''--print'',
       ''It's 5:00 AM. The night ends. Rest well.'']]"
    by (auto simp: p1 time_str_0500)
  from last_breath_prompt_fallback [of ?ev2 solitude_toml False awake] c
  have 2: "build_prompt solitude_toml ?ev2 False True awake =
     (Inr ''It's 5:00 AM.\<newline>\<newline>Good night.'', awake)"
    by (simp add: time_str_0500)
  show ?thesis using a b c 1 2 by simp
qed

section \<open>The last wakeup\<close>

text \<open>
  C6. \<^verbatim>\<open>last_breath\<close> hands the agent at most one command, and that command is a
  \<^verbatim>\<open>--resume\<close>, never a \<^verbatim>\<open>--session-id\<close>. When the template can be read or is
  missing, and there is a session or tonight's date can be computed, the command is
  issued: it resumes the session the object holds at the moment of the invocation, which
  is the one it held before when there was one, and otherwise the identity just taken
  from the UUID source, with \<open>tonight_date\<close> set from the clock, both before the
  invocation.
\<close>

theorem last_breath_resumes:
  fixes cfg ev st
  defines "st' \<equiv> snd (last_breath cfg ev st)"
  shows "(commands st' = commands st \<or>
          (\<exists>sid prompt. commands st' = commands st @ [[claude_path cfg, ''--resume'', sid, ''--print'', prompt]]))
       \<and> ((\<forall>e. last_breath_read ev \<noteq> ReadFailed e) \<and>
           (session_id st \<noteq> None \<or> 1 < year (date_of (now_tonight ev))) \<longrightarrow>
          (\<exists>sid prompt st1.
             last_breath_setup cfg ev st =
               (Inr [claude_path cfg, ''--resume'', sid, ''--print'', prompt], st1) \<and>
             fst (build_prompt cfg ev False True st1) = Inr prompt \<and>
             session_id st1 = Some sid \<and>
             (case session_id st of
                Some s \<Rightarrow> sid = s \<and> tonight_date st1 = tonight_date st
              | None \<Rightarrow> sid = uuid4 ev \<and>
                  get_tonight_date cfg (now_tonight ev) = Inr (fmt (tonight_date st1)) \<and> tonight_date st1 \<noteq> None) \<and>
             fst (last_breath cfg ev st) = None \<and>
             commands st' = commands st @ [[claude_path cfg, ''--resume'', sid, ''--print'', prompt]]))"
proof -
  have A: "commands st' = commands st \<or>
          (\<exists>sid prompt. commands st' = commands st @ [[claude_path cfg, ''--resume'', sid, ''--print'', prompt]])"
    unfolding st'_def
    by (auto simp: last_breath_def last_breath_setup_def Let_def
           split: prod.splits sum.splits option.splits if_splits
           dest!: build_prompt_frame new_session_frame)
  have B: "(\<exists>sid prompt st1.
             last_breath_setup cfg ev st =
               (Inr [claude_path cfg, ''--resume'', sid, ''--print'', prompt], st1) \<and>
             fst (build_prompt cfg ev False True st1) = Inr prompt \<and>
             session_id st1 = Some sid \<and>
             (case session_id st of
                Some s \<Rightarrow> sid = s \<and> tonight_date st1 = tonight_date st
              | None \<Rightarrow> sid = uuid4 ev \<and>
                  get_tonight_date cfg (now_tonight ev) = Inr (fmt (tonight_date st1)) \<and> tonight_date st1 \<noteq> None) \<and>
             fst (last_breath cfg ev st) = None \<and>
             commands st' = commands st @ [[claude_path cfg, ''--resume'', sid, ''--print'', prompt]])"
    if r: "\<forall>e. last_breath_read ev \<noteq> ReadFailed e"
      and c: "session_id st \<noteq> None \<or> 1 < year (date_of (now_tonight ev))"
  proof -
    have bp: "\<exists>p s3. build_prompt cfg ev False True s = (Inr p, s3)" for s
      using r by (cases "last_breath_read ev") (simp_all add: build_prompt_def Let_def)
    show ?thesis
    proof (cases "session_id st")
      case None
      then have "1 < year (date_of (now_tonight ev))" using c by simp
      then obtain d where d: "get_tonight_date cfg (now_tonight ev) = Inr d"
        using get_tonight_date_ok by blast
      define s2 where "s2 = log WARNING ''No existing session for last breath; created new one''
         ((log INFO (''Last breath of the night. Session: '' @ fmt (session_id st)) st)
            \<lparr>session_id := Some (uuid4 ev), tonight_date := Some d\<rparr>)"
      obtain p s3 where p: "build_prompt cfg ev False True s2 = (Inr p, s3)"
        using bp by blast
      have s3: "session_id s3 = Some (uuid4 ev)" "tonight_date s3 = Some d" "commands s3 = commands st"
        using build_prompt_frame [OF p] by (simp_all add: s2_def)
      have su: "last_breath_setup cfg ev st =
          (Inr [claude_path cfg, ''--resume'', uuid4 ev, ''--print'', p], s3)"
        using None d p s3 by (simp add: last_breath_setup_def new_session_def Let_def s2_def fmt_def)
      have bp3: "fst (build_prompt cfg ev False True s3) = Inr p"
        using p r by (cases "last_breath_read ev") (simp_all add: build_prompt_def Let_def)
      show ?thesis unfolding st'_def
        apply (rule exI [of _ "uuid4 ev"], rule exI [of _ p], rule exI [of _ s3])
        using None d s3 su bp3 by (simp add: last_breath_def fmt_def)
    next
      case (Some s)
      define s2 where "s2 = log INFO (''Last breath of the night. Session: '' @ fmt (session_id st)) st"
      obtain p s3 where p: "build_prompt cfg ev False True s2 = (Inr p, s3)"
        using bp by blast
      have s3: "session_id s3 = Some s" "tonight_date s3 = tonight_date st" "commands s3 = commands st"
        using build_prompt_frame [OF p] Some by (simp_all add: s2_def)
      have su: "last_breath_setup cfg ev st =
          (Inr [claude_path cfg, ''--resume'', s, ''--print'', p], s3)"
        using Some p s3 by (simp add: last_breath_setup_def Let_def s2_def fmt_def)
      have bp3: "fst (build_prompt cfg ev False True s3) = Inr p"
        using p r by (cases "last_breath_read ev") (simp_all add: build_prompt_def Let_def)
      show ?thesis unfolding st'_def
        apply (rule exI [of _ s], rule exI [of _ p], rule exI [of _ s3])
        using Some s3 su bp3 by (simp add: last_breath_def fmt_def)
    qed
  qed
  show ?thesis using A B by blast
qed

theorem last_breath_resumes_witness:
  "(\<forall>e. last_breath_read (wake (at 2024 3 10 5 0) uuid_b (CompletedProcess 0 ''Sleep well.'' ''''))
          \<noteq> ReadFailed e) \<and>
   1 < year (date_of (now_tonight (wake (at 2024 3 10 5 0) uuid_b (CompletedProcess 0 ''Sleep well.'' '''')))) \<and>
   session_id started = None \<and>
   fst (last_breath solitude_toml
          (wake (at 2024 3 10 5 0) uuid_b (CompletedProcess 0 ''Sleep well.'' '''')) started) = None \<and>
   commands (snd (last_breath solitude_toml
          (wake (at 2024 3 10 5 0) uuid_b (CompletedProcess 0 ''Sleep well.'' '''')) started)) =
     [[''/usr/bin/claude'', ''--resume'', uuid_b, ''--print'', ''It's 5:00 AM.\<newline>\<newline>Good night.'']] \<and>
   session_id (snd (last_breath solitude_toml
          (wake (at 2024 3 10 5 0) uuid_b (CompletedProcess 0 ''Sleep well.'' '''')) started)) = Some uuid_b \<and>
   tonight_date (snd (last_breath solitude_toml
          (wake (at 2024 3 10 5 0) uuid_b (CompletedProcess 0 ''Sleep well.'' '''')) started)) =
     Some ''2024-03-10''"
proof -
  let ?ev = "wake (at 2024 3 10 5 0) uuid_b (CompletedProcess 0 ''Sleep well.'' '''')"
  have a: "\<forall>e. last_breath_read ?ev \<noteq> ReadFailed e" by simp
  have b: "1 < year (date_of (now_tonight ?ev))" by simp
  have bp: "fst (build_prompt solitude_toml ?ev False True s) = Inr ''It's 5:00 AM.\<newline>\<newline>Good night.''" for s
    by (simp add: build_prompt_def time_str_0500)
  from last_breath_resumes [of solitude_toml ?ev started] a b
  obtain sid prompt st1 where
      0: "last_breath_setup solitude_toml ?ev started =
            (Inr [claude_path solitude_toml, ''--resume'', sid, ''--print'', prompt], st1)"
    and 1: "fst (build_prompt solitude_toml ?ev False True st1) = Inr prompt"
    and 2: "session_id st1 = Some sid"
    and 3: "sid = uuid4 ?ev"
    and 4: "get_tonight_date solitude_toml (now_tonight ?ev) = Inr (fmt (tonight_date st1))"
    and 5: "tonight_date st1 \<noteq> None"
    and 6: "fst (last_breath solitude_toml ?ev started) = None"
    and 7: "commands (snd (last_breath solitude_toml ?ev started)) =
            commands started @ [[claude_path solitude_toml, ''--resume'', sid, ''--print'', prompt]]"
    by auto
  have p: "prompt = ''It's 5:00 AM.\<newline>\<newline>Good night.''" using 1 bp by simp
  have s: "session_id (snd (last_breath solitude_toml ?ev started)) = Some uuid_b"
    using 0 2 3 by (simp add: last_breath_def)
  have "tonight_date st1 = Some ''2024-03-10''"
    using 4 5 by (auto simp: night_at_0500 fmt_def)
  then have d: "tonight_date (snd (last_breath solitude_toml ?ev started)) = Some ''2024-03-10''"
    using 0 by (simp add: last_breath_def)
  show ?thesis using a b 3 6 7 p s d by simp
qed

text \<open>
  C8. A last wakeup that finds a session leaves \<open>session_id\<close> and \<open>tonight_date\<close> as
  they were, whatever the agent does: nothing is cleared or replaced.
\<close>

theorem last_breath_keeps_session:
  assumes "session_id st = Some sid"
  shows "session_id (snd (last_breath cfg ev st)) = Some sid \<and>
         tonight_date (snd (last_breath cfg ev st)) = tonight_date st"
  using assms
  by (auto simp: last_breath_def last_breath_setup_def Let_def
           split: prod.splits sum.splits option.splits dest!: build_prompt_frame)

theorem last_breath_keeps_session_witness:
  "session_id awake = Some uuid_a \<and>
   session_id (snd (last_breath solitude_toml
      (wake (at 2024 3 10 5 0) uuid_b (CompletedProcess 0 ''Sleep well.'' '''')) awake)) = Some uuid_a \<and>
   tonight_date (snd (last_breath solitude_toml
      (wake (at 2024 3 10 5 0) uuid_b (CompletedProcess 0 ''Sleep well.'' '''')) awake)) =
     Some ''2024-03-09''"
  using last_breath_keeps_session
    [of awake uuid_a solitude_toml "wake (at 2024 3 10 5 0) uuid_b (CompletedProcess 0 ''Sleep well.'' '''')"]
  by simp

section \<open>A failed invocation\<close>

text \<open>
  C3. When \<^verbatim>\<open>heartbeat\<close> reaches the invocation and the invocation fails (a return code
  other than 0, the timeout, or another exception), the handler returns without raising;
  no output file changes; \<open>session_id\<close> and \<open>tonight_date\<close> keep the values they had at
  the moment of the invocation, which are a session and the night date of this wakeup;
  so a later wakeup whose night date is that date is classified as middle.
\<close>

theorem heartbeat_failure_keeps_session:
  fixes cfg ev st
  defines "st' \<equiv> snd (heartbeat cfg ev st)"
  assumes reached: "heartbeat_setup cfg ev st = (Inr (is_first, cmd), st1)"
    and failed: "invocation_failed (subprocess_run ev)"
  shows "fst (heartbeat cfg ev st) = None
       \<and> output_files st' = output_files st1 \<and> output_files st' = output_files st
       \<and> session_id st' = session_id st1 \<and> tonight_date st' = tonight_date st1
       \<and> (\<exists>sid d. session_id st' = Some sid \<and> tonight_date st' = Some d \<and>
            get_tonight_date cfg (if is_first then now_tonight ev else now_is_first ev) = Inr d \<and>
            (\<forall>t. get_tonight_date cfg t = Inr d \<longrightarrow> is_first_breath cfg t st' = Inr False))"
proof -
  have hb: "heartbeat cfg ev st = (None, run_claude ev cmd is_first ''Heartbeat complete'' st1)"
    using reached by (simp add: heartbeat_def)
  then have st': "st' = run_claude ev cmd is_first ''Heartbeat complete'' st1"
    by (simp add: st'_def)
  have files: "output_files st' = output_files st1"
    using failed by (simp add: st' run_claude_failed)
  have sess: "session_id st' = session_id st1" "tonight_date st' = tonight_date st1"
    by (simp_all add: st')
  obtain sid d where sd: "session_id st1 = Some sid" "tonight_date st1 = Some d"
    using heartbeat_setup_reached(6,7) [OF reached] by auto
  have night: "get_tonight_date cfg (if is_first then now_tonight ev else now_is_first ev) = Inr d"
    using heartbeat_setup_reached(5) [OF reached] sd by (simp add: fmt_def)
  have "is_first_breath cfg t st' = Inr False" if "get_tonight_date cfg t = Inr d" for t
    using that sd sess by (intro is_first_breath_middle) simp_all
  then show ?thesis
    using hb files sess sd night heartbeat_setup_reached(2) [OF reached] by simp
qed

theorem heartbeat_failure_keeps_session_witness:
  "heartbeat_setup solitude_toml (wake (at 2024 3 9 23 40) uuid_b TimeoutExpired) awake =
    (Inr (False, [''/usr/bin/claude'', ''--resume'', uuid_a, ''--print'', ''It's 11:40 PM. You have time alone.'']),
     log INFO (''Continuing session '' @ uuid_a) awake) \<and>
   invocation_failed (subprocess_run (wake (at 2024 3 9 23 40) uuid_b TimeoutExpired)) \<and>
   heartbeat solitude_toml (wake (at 2024 3 9 23 40) uuid_b TimeoutExpired) awake =
     (None, awake\<lparr>logger := [(INFO, ''Continuing session '' @ uuid_a), (ERROR, ''Claude timed out after 15 minutes'')],
        commands := [[''/usr/bin/claude'', ''--resume'', uuid_a, ''--print'', ''It's 11:40 PM. You have time alone.'']]\<rparr>) \<and>
   is_first_breath solitude_toml (at 2024 3 10 0 20)
     (snd (heartbeat solitude_toml (wake (at 2024 3 9 23 40) uuid_b TimeoutExpired) awake)) = Inr False"
proof -
  let ?ev = "wake (at 2024 3 9 23 40) uuid_b TimeoutExpired"
  have f: "invocation_failed (subprocess_run ?ev)" by (simp add: invocation_failed_def)
  have n: "get_tonight_date solitude_toml (if False then now_tonight ?ev else now_is_first ?ev) = Inr ''2024-03-09''"
    by (simp add: night_at_2340)
  have hb: "heartbeat solitude_toml ?ev awake = 
     (None, awake\<lparr>logger := [(INFO, ''Continuing session '' @ uuid_a), (ERROR, ''Claude timed out after 15 minutes'')],
        commands := [[''/usr/bin/claude'', ''--resume'', uuid_a, ''--print'', ''It's 11:40 PM. You have time alone.'']]\<rparr>)"
    by (simp add: heartbeat_def setup_at_2340 run_claude_def log_def)
  from heartbeat_failure_keeps_session [OF setup_at_2340 f] n night_at_0020
  have "is_first_breath solitude_toml (at 2024 3 10 0 20) (snd (heartbeat solitude_toml ?ev awake)) = Inr False"
    by auto
  then show ?thesis using setup_at_2340 f hb by simp
qed

section \<open>Dates\<close>

lemma days_in_month_pos: "1 \<le> days_in_month y m" "days_in_month y m \<le> 31"
  by (simp_all add: days_in_month_def)

lemma minus_one_day_cases:
  assumes "valid_date d"
  obtains (day) "1 < day d" "minus_one_day d = Inr (d\<lparr>day := day d - 1\<rparr>)"
    | (month) "day d = 1" "1 < month d"
        "minus_one_day d = Inr (d\<lparr>month := month d - 1, day := days_in_month (year d) (month d - 1)\<rparr>)"
    | (year) "day d = 1" "month d = 1" "1 < year d"
        "minus_one_day d = Inr \<lparr>year = year d - 1, month = 12, day = 31\<rparr>"
    | (min) "day d = 1" "month d = 1" "year d = 1" "minus_one_day d = Inl OverflowError"
proof -
  have "1 \<le> day d" "1 \<le> month d" "1 \<le> year d" using assms by (simp_all add: valid_date_def)
  then consider "1 < day d" | "day d = 1" "1 < month d" | "day d = 1" "month d = 1" "1 < year d"
    | "day d = 1" "month d = 1" "year d = 1" by linarith
  then show ?thesis
  proof cases
    case 1 then show ?thesis using day by (simp add: minus_one_day_def)
  next
    case 2 then show ?thesis using month by (simp add: minus_one_day_def)
  next
    case 3 then show ?thesis using year by (simp add: minus_one_day_def)
  next
    case 4 then show ?thesis using min by (simp add: minus_one_day_def)
  qed
qed

lemma minus_one_day_valid:
  assumes v: "valid_date d" and p: "minus_one_day d = Inr p"
  shows "valid_date p"
  using v
proof (cases rule: minus_one_day_cases)
  case day
  then show ?thesis using v p by (simp add: valid_date_def)
next
  case month
  then have "p = d\<lparr>month := month d - 1, day := days_in_month (year d) (month d - 1)\<rparr>"
    using p by simp
  then show ?thesis using v month(2) days_in_month_pos(1) [of "year d" "month d - 1"]
    by (simp add: valid_date_def)
next
  case year
  then have "p = \<lparr>year = year d - 1, month = 12, day = 31\<rparr>" using p by simp
  then show ?thesis using v year(3) by (simp add: valid_date_def days_in_month_def)
next
  case min
  then show ?thesis using p by simp
qed

lemma minus_one_day_defined:
  assumes "valid_date d" and "date_key d \<noteq> (1, 1, 1)"
  shows "\<exists>p. minus_one_day d = Inr p"
  using assms(1)
proof (cases rule: minus_one_day_cases)
  case min
  then show ?thesis using assms(2) by (simp add: date_key_def)
qed simp_all

lemma minus_one_day_less:
  assumes v: "valid_date d" and p: "minus_one_day d = Inr p"
  shows "date_key p < date_key d"
  using v
proof (cases rule: minus_one_day_cases)
  case day
  then show ?thesis using p by (auto simp: date_key_def less_prod_def)
next
  case month
  then show ?thesis using p by (auto simp: date_key_def less_prod_def)
next
  case year
  then show ?thesis using p by (auto simp: date_key_def less_prod_def)
next
  case min
  then show ?thesis using p by simp
qed

lemma minus_one_day_pred:
  assumes d: "valid_date d" and p: "minus_one_day d = Inr p" and a: "valid_date a"
    and lt: "date_key a < date_key d"
  shows "date_key a \<le> date_key p"
proof -
  consider (day) "1 < day d"
    | (month) "day d = 1" "1 < month d"
    | (year) "day d = 1" "month d = 1" "1 < year d"
    using d p by (auto simp: valid_date_def minus_one_day_def split: if_splits)
  then show ?thesis
  proof cases
    case day
    then have "p = d\<lparr>day := day d - 1\<rparr>" using p by (simp add: minus_one_day_def)
    then show ?thesis using lt
      by (auto simp: date_key_def less_prod_def less_eq_prod_def)
  next
    case month
    then have pe: "p = d\<lparr>month := month d - 1, day := days_in_month (year d) (month d - 1)\<rparr>"
      using p by (simp add: minus_one_day_def)
    have "year a < year d \<or> (year a = year d \<and> month a < month d)"
      using lt a month by (auto simp: date_key_def less_prod_def valid_date_def)
    then show ?thesis
    proof
      assume "year a < year d"
      then show ?thesis using pe by (simp add: date_key_def less_eq_prod_def)
    next
      assume h: "year a = year d \<and> month a < month d"
      show ?thesis
      proof (cases "month a = month d - 1")
        case True
        then have "day a \<le> days_in_month (year d) (month d - 1)"
          using a h by (simp add: valid_date_def)
        then show ?thesis using pe h True by (simp add: date_key_def less_eq_prod_def)
      next
        case False
        then have "month a < month d - 1" using h by simp
        then show ?thesis using pe h by (simp add: date_key_def less_eq_prod_def)
      qed
    qed
  next
    case year
    then have pe: "p = \<lparr>year = year d - 1, month = 12, day = 31\<rparr>"
      using p by (simp add: minus_one_day_def)
    have ya: "year a < year d"
      using lt a year by (auto simp: date_key_def less_prod_def valid_date_def)
    have "month a \<le> 12" "day a \<le> 31"
      using a days_in_month_pos(2) [of "year a" "month a"] by (simp_all add: valid_date_def)
    then show ?thesis using pe ya
      by (auto simp: date_key_def less_eq_prod_def)
  qed
qed

lemma digit_char_inj:
  assumes "digit_char a = digit_char b" and "a < 10" and "b < 10"
  shows "a = b"
proof -
  have "a \<in> {0,1,2,3,4,5,6,7,8,9}" "b \<in> {0,1,2,3,4,5,6,7,8,9}" using assms(2,3) by auto
  then show ?thesis using assms(1) by (auto simp: digit_char_def)
qed

lemma str_nat_1: "n < 10 \<Longrightarrow> str_nat n = [digit_char n]"
  by (subst str_nat.simps) simp

lemma str_nat_step: "10 \<le> n \<Longrightarrow> str_nat n = str_nat (n div 10) @ [digit_char (n mod 10)]"
  by (subst str_nat.simps) simp

lemma str_nat_2:
  assumes "10 \<le> n" "n < 100"
  shows "str_nat n = [digit_char (n div 10), digit_char (n mod 10)]"
proof -
  have "n div 10 < 10" using assms by simp
  then show ?thesis using assms by (simp add: str_nat_step str_nat_1)
qed

lemma str_nat_3:
  assumes "100 \<le> n" "n < 1000"
  shows "str_nat n = [digit_char (n div 100), digit_char (n div 10 mod 10), digit_char (n mod 10)]"
proof -
  have "10 \<le> n div 10" "n div 10 < 100" using assms by simp_all
  then have "str_nat (n div 10) = [digit_char (n div 10 div 10), digit_char (n div 10 mod 10)]"
    by (rule str_nat_2)
  moreover have "n div 10 div 10 = n div 100" by (simp add: div_mult2_eq [symmetric])
  ultimately show ?thesis using assms by (simp add: str_nat_step)
qed

lemma str_nat_4:
  assumes "1000 \<le> n" "n < 10000"
  shows "str_nat n = [digit_char (n div 1000), digit_char (n div 100 mod 10),
                      digit_char (n div 10 mod 10), digit_char (n mod 10)]"
proof -
  have "100 \<le> n div 10" "n div 10 < 1000" using assms by simp_all
  then have "str_nat (n div 10) =
      [digit_char (n div 10 div 100), digit_char (n div 10 div 10 mod 10), digit_char (n div 10 mod 10)]"
    by (rule str_nat_3)
  moreover have "n div 10 div 10 = n div 100" "n div 10 div 100 = n div 1000"
    by (simp_all add: div_mult2_eq [symmetric])
  ultimately show ?thesis using assms by (simp add: str_nat_step)
qed

lemma pad2_digits:
  assumes "n < 100"
  shows "pad2 n = [digit_char (n div 10), digit_char (n mod 10)]"
proof (cases "n < 10")
  case True
  then show ?thesis by (simp add: pad2_def str_nat_1 digit_char_def)
next
  case False
  then show ?thesis using assms by (simp add: pad2_def str_nat_2)
qed

lemma pad4_digits:
  assumes "n < 10000"
  shows "pad4 n = [digit_char (n div 1000), digit_char (n div 100 mod 10),
                   digit_char (n div 10 mod 10), digit_char (n mod 10)]"
proof -
  have r3: "replicate 3 c = [c, c, c]" for c :: char by (simp add: numeral_3_eq_3)
  have r2: "replicate 2 c = [c, c]" for c :: char by (simp add: numeral_2_eq_2)
  have z: "digit_char 0 = CHR ''0''" by (simp add: digit_char_def)
  consider "n < 10" | "10 \<le> n" "n < 100" | "100 \<le> n" "n < 1000" | "1000 \<le> n"
    by linarith
  then show ?thesis
  proof cases
    case 1
    then have "str_nat n = [digit_char n]" by (rule str_nat_1)
    then have "pad4 n = [CHR ''0'', CHR ''0'', CHR ''0'', digit_char n]"
      by (simp add: pad4_def r3)
    moreover have "n div 1000 = 0" "n div 100 = 0" "n div 10 = 0" "n mod 10 = n" using 1 by simp_all
    ultimately show ?thesis by (simp add: z)
  next
    case 2
    then have "str_nat n = [digit_char (n div 10), digit_char (n mod 10)]" by (rule str_nat_2)
    then have "pad4 n = [CHR ''0'', CHR ''0'', digit_char (n div 10), digit_char (n mod 10)]"
      by (simp add: pad4_def r2)
    moreover have "n div 1000 = 0" "n div 100 = 0" "n div 10 mod 10 = n div 10" using 2 by simp_all
    ultimately show ?thesis by (simp add: z)
  next
    case 3
    then have "str_nat n = [digit_char (n div 100), digit_char (n div 10 mod 10), digit_char (n mod 10)]"
      by (rule str_nat_3)
    then have "pad4 n = [CHR ''0'', digit_char (n div 100), digit_char (n div 10 mod 10), digit_char (n mod 10)]"
      by (simp add: pad4_def)
    moreover have "n div 1000 = 0" "n div 100 mod 10 = n div 100" using 3 by simp_all
    ultimately show ?thesis by (simp add: z)
  next
    case 4
    then have "str_nat n = [digit_char (n div 1000), digit_char (n div 100 mod 10),
                      digit_char (n div 10 mod 10), digit_char (n mod 10)]"
      using assms by (intro str_nat_4)
    then show ?thesis by (simp add: pad4_def)
  qed
qed

lemma pad2_length: "n < 100 \<Longrightarrow> length (pad2 n) = 2"
  by (simp add: pad2_digits)

lemma pad4_length: "n < 10000 \<Longrightarrow> length (pad4 n) = 4"
  by (simp add: pad4_digits)

lemma pad2_inj:
  assumes "pad2 a = pad2 b" "a < 100" "b < 100"
  shows "a = b"
proof -
  have "digit_char (a div 10) = digit_char (b div 10)" "digit_char (a mod 10) = digit_char (b mod 10)"
    using assms by (simp_all add: pad2_digits)
  moreover have "a div 10 < 10" "b div 10 < 10" using assms by simp_all
  ultimately have "a div 10 = b div 10" "a mod 10 = b mod 10"
    by (auto intro: digit_char_inj)
  then show ?thesis by (metis div_mult_mod_eq)
qed

lemma pad4_inj:
  assumes "pad4 a = pad4 b" "a < 10000" "b < 10000"
  shows "a = b"
proof -
  have e: "digit_char (a div 1000) = digit_char (b div 1000)"
      "digit_char (a div 100 mod 10) = digit_char (b div 100 mod 10)"
      "digit_char (a div 10 mod 10) = digit_char (b div 10 mod 10)"
      "digit_char (a mod 10) = digit_char (b mod 10)"
    using assms by (simp_all add: pad4_digits)
  have "a div 1000 < 10" "b div 1000 < 10" using assms by simp_all
  then have 1: "a div 1000 = b div 1000" using e(1) by (auto intro: digit_char_inj)
  have 2: "a div 100 mod 10 = b div 100 mod 10" using e(2) by (auto intro: digit_char_inj)
  have 3: "a div 10 mod 10 = b div 10 mod 10" using e(3) by (auto intro: digit_char_inj)
  have 4: "a mod 10 = b mod 10" using e(4) by (auto intro: digit_char_inj)
  have "a div 100 = b div 100"
  proof -
    have "a div 100 div 10 = b div 100 div 10" using 1 by (simp add: div_mult2_eq [symmetric])
    then show ?thesis using 2 by (metis div_mult_mod_eq)
  qed
  then have "a div 10 div 10 = b div 10 div 10" by (simp add: div_mult2_eq [symmetric])
  then have "a div 10 = b div 10" using 3 by (metis div_mult_mod_eq)
  then show ?thesis using 4 by (metis div_mult_mod_eq)
qed

lemma valid_date_bounds:
  assumes "valid_date d"
  shows "0 \<le> year d" "0 \<le> month d" "0 \<le> day d"
    and "nat (year d) < 10000" "nat (month d) < 100" "nat (day d) < 100"
proof -
  have "1 \<le> year d" "year d \<le> 9999" "1 \<le> month d" "month d \<le> 12" "1 \<le> day d"
      "day d \<le> days_in_month (year d) (month d)"
    using assms by (simp_all add: valid_date_def)
  moreover have "days_in_month (year d) (month d) \<le> 31" by (rule days_in_month_pos)
  ultimately show "0 \<le> year d" "0 \<le> month d" "0 \<le> day d"
    and "nat (year d) < 10000" "nat (month d) < 100" "nat (day d) < 100"
    by linarith+
qed

lemma isoformat_inj:
  assumes "isoformat a = isoformat b" and a: "valid_date a" and b: "valid_date b"
  shows "a = b"
proof -
  note ba = valid_date_bounds [OF a] and bb = valid_date_bounds [OF b]
  have la: "length (pad4 (nat (year a))) = 4" "length (pad2 (nat (month a))) = 2"
    using ba by (simp_all add: pad4_length pad2_length)
  have lb: "length (pad4 (nat (year b))) = 4" "length (pad2 (nat (month b))) = 2"
    using bb by (simp_all add: pad4_length pad2_length)
  have y: "pad4 (nat (year a)) = pad4 (nat (year b))"
    and r: "pad2 (nat (month a)) @ ''-'' @ pad2 (nat (day a)) =
            pad2 (nat (month b)) @ ''-'' @ pad2 (nat (day b))"
    using assms(1) la(1) lb(1) by (simp_all add: isoformat_def)
  have m: "pad2 (nat (month a)) = pad2 (nat (month b))"
    and dd: "pad2 (nat (day a)) = pad2 (nat (day b))"
    using r la(2) lb(2) by simp_all
  have "nat (year a) = nat (year b)" using y ba(4) bb(4) by (rule pad4_inj)
  moreover have "nat (month a) = nat (month b)" using m ba(5) bb(5) by (rule pad2_inj)
  moreover have "nat (day a) = nat (day b)" using dd ba(6) bb(6) by (rule pad2_inj)
  ultimately have "year a = year b" "month a = month b" "day a = day b"
    using ba(1-3) bb(1-3) by simp_all
  then show ?thesis by simp
qed

lemma days_before_month_step:
  assumes "1 < m"
  shows "days_before_month y m = days_before_month y (m - 1) + days_in_month y (m - 1)"
proof -
  have "[1..m - 1] = [1..m - 1 - 1] @ [m - 1]" using assms by (intro upto_rec2) simp
  then show ?thesis by (simp add: days_before_month_def)
qed

lemma days_before_december: "days_before_month y 12 + 31 = (if is_leap y then 366 else 365)"
  by (simp add: days_before_month_def upto_rec1 days_in_month_def)


lemma div_step:
  assumes k: "0 < (k::int)"
  shows "p div k - (p - 1) div k = (if p mod k = 0 then 1 else 0)"
proof (cases "p mod k = 0")
  case True
  have "p - 1 = k * (p div k - 1) + (k - 1)"
    using True mult_div_mod_eq [of k p] by (simp add: algebra_simps)
  then have "(p - 1) div k = p div k - 1"
    using k by (intro int_div_pos_eq [where r = "k - 1"]) simp_all
  then show ?thesis using True by simp
next
  case False
  have "0 \<le> p mod k" "p mod k < k" using k by simp_all
  then have r: "0 \<le> p mod k - 1" "p mod k - 1 < k" using False by linarith+
  have "p - 1 = k * (p div k) + (p mod k - 1)"
    using mult_div_mod_eq [of k p] by simp
  then have "(p - 1) div k = p div k"
    using r by (intro int_div_pos_eq [where r = "p mod k - 1"]) simp_all
  then show ?thesis using False by simp
qed

lemma mod_zero_coarser:
  assumes "(k::int) dvd n" and "p mod n = 0"
  shows "p mod k = 0"
proof -
  have "n dvd p" using assms(2) by (simp only: dvd_eq_mod_eq_0)
  then have "k dvd p" using assms(1) by (rule dvd_trans [rotated])
  then show ?thesis by (simp only: dvd_eq_mod_eq_0)
qed

lemma days_before_year_step:
  "days_before_year y = days_before_year (y - 1) + (if is_leap (y - 1) then 366 else 365)"
proof -
  define p where "p = y - 1"
  define a b c a' b' c' where "a = p div 4" and "b = p div 100" and "c = p div 400"
    and "a' = (p - 1) div 4" and "b' = (p - 1) div 100" and "c' = (p - 1) div 400"
  define P4 P100 P400 where "P4 \<longleftrightarrow> p mod 4 = 0" and "P100 \<longleftrightarrow> p mod 100 = 0"
    and "P400 \<longleftrightarrow> p mod 400 = 0"
  have 4: "a - a' = (if P4 then 1 else 0)" unfolding a_def a'_def P4_def by (rule div_step) simp
  have 100: "b - b' = (if P100 then 1 else 0)"
    unfolding b_def b'_def P100_def by (rule div_step) simp
  have 400: "c - c' = (if P400 then 1 else 0)"
    unfolding c_def c'_def P400_def by (rule div_step) simp
  have m1: "P100" if "P400"
    using that unfolding P100_def P400_def by (intro mod_zero_coarser [of 100 400]) simp_all
  have m2: "P4" if "P100"
    using that unfolding P100_def P4_def by (intro mod_zero_coarser [of 4 100]) simp_all
  have leap: "is_leap p \<longleftrightarrow> P4 \<and> (\<not> P100 \<or> P400)"
    unfolding is_leap_def P4_def P100_def P400_def ..
  have y: "days_before_year y = p * 365 + a - b + c"
    unfolding days_before_year_def Let_def p_def a_def b_def c_def ..
  have y1: "days_before_year (y - 1) = (p - 1) * 365 + a' - b' + c'"
    unfolding days_before_year_def Let_def p_def a'_def b'_def c'_def ..
  have "days_before_year y = days_before_year (y - 1) + (if is_leap p then 366 else 365)"
    unfolding leap y y1 using 4 100 400 m1 m2
    by (cases P4; cases P100; cases P400) (simp_all add: algebra_simps)
  then show ?thesis by (simp only: p_def)
qed

lemma toordinal_minus_one_day:
  assumes v: "valid_date d" and p: "minus_one_day d = Inr p"
  shows "toordinal p = toordinal d - 1"
  using v
proof (cases rule: minus_one_day_cases)
  case day
  then show ?thesis using p by (auto simp: toordinal_def)
next
  case month
  then show ?thesis using p days_before_month_step [of "month d" "year d"]
    by (auto simp: toordinal_def)
next
  case year
  have "days_before_month (year d) 1 = 0" by (simp add: days_before_month_def)
  then show ?thesis
    using year p days_before_year_step [of "year d"] days_before_december [of "year d - 1"]
    by (auto simp: toordinal_def)
next
  case min
  then show ?thesis using p by simp
qed

lemma clock_reading_yesterday:
  assumes "clock_reading t"
  obtains p where "minus_one_day (date_of t) = Inr p" "valid_date p"
    "date_key p < date_key (date_of t)" "toordinal p = toordinal (date_of t) - 1"
proof -
  have v: "valid_date (date_of t)" using assms by (simp add: clock_reading_def valid_datetime_def)
  moreover have "date_key (date_of t) \<noteq> (1, 1, 1)" using assms by (simp add: clock_reading_def)
  ultimately obtain p where p: "minus_one_day (date_of t) = Inr p"
    using minus_one_day_defined by blast
  show ?thesis
    using p minus_one_day_valid [OF v p] minus_one_day_less [OF v p] toordinal_minus_one_day [OF v p]
    by (rule that)
qed

lemma get_tonight_date_tonight:
  assumes "clock_reading t"
  shows "get_tonight_date cfg t = Inr (isoformat (tonight cfg t))" and "valid_date (tonight cfg t)"
proof -
  obtain p where p: "minus_one_day (date_of t) = Inr p" "valid_date p"
    using assms by (rule clock_reading_yesterday)
  show "get_tonight_date cfg t = Inr (isoformat (tonight cfg t))"
    using p by (simp add: get_tonight_date_def tonight_def)
  show "valid_date (tonight cfg t)"
    using p assms by (simp add: tonight_def clock_reading_def valid_datetime_def)
qed

lemma date_key_inj: "date_key a = date_key b \<Longrightarrow> a = b"
  by (simp add: date_key_def)

lemma datetime_key_le:
  assumes "datetime_key t \<le> datetime_key t'"
  shows "date_key (date_of t) < date_key (date_of t') \<or>
         (date_key (date_of t) = date_key (date_of t') \<and> hour t \<le> hour t')"
proof -
  have "date_key (date_of t) < date_key (date_of t') \<or>
        (date_key (date_of t) \<le> date_key (date_of t') \<and> (hour t, minute t) \<le> (hour t', minute t'))"
    using assms unfolding datetime_key_def by (subst (asm) less_eq_prod_def) simp
  moreover have "hour t \<le> hour t'" if "(hour t, minute t) \<le> (hour t', minute t')"
    using that by (subst (asm) less_eq_prod_def) auto
  ultimately show ?thesis by (auto simp: le_less)
qed

lemma tonight_mono:
  assumes t: "clock_reading t" and t': "clock_reading t'"
    and le: "datetime_key t \<le> datetime_key t'"
  shows "date_key (tonight cfg t) \<le> date_key (tonight cfg t')"
proof -
  obtain p where p: "minus_one_day (date_of t) = Inr p" "date_key p < date_key (date_of t)"
    using t by (rule clock_reading_yesterday)
  obtain p' where p': "minus_one_day (date_of t') = Inr p'" "date_key p' < date_key (date_of t')"
    using t' by (rule clock_reading_yesterday)
  have v: "valid_date (date_of t)" "valid_date (date_of t')"
    using t t' by (simp_all add: clock_reading_def valid_datetime_def)
  have up: "date_key (tonight cfg t) \<le> date_key (date_of t)"
    using p by (simp add: tonight_def less_imp_le)
  consider (earlier) "date_key (date_of t) < date_key (date_of t')"
    | (same) "date_key (date_of t) = date_key (date_of t')" "hour t \<le> hour t'"
    using datetime_key_le [OF le] by blast
  then show ?thesis
  proof cases
    case earlier
    have "date_key (date_of t) \<le> date_key p'"
      using v(2) p'(1) v(1) earlier by (rule minus_one_day_pred)
    moreover have "date_key p' \<le> date_key (tonight cfg t')"
      using p' by (simp add: tonight_def less_imp_le)
    ultimately show ?thesis using up by (meson order_trans)
  next
    case same
    then have "date_of t = date_of t'" by (intro date_key_inj)
    then show ?thesis using same(2) p p' by (auto simp: tonight_def less_imp_le)
  qed
qed

text \<open>
  C4. For every clock reading, whatever \<open>night_end\<close> is (so in particular for
  \<open>night_end\<close> from 1 to 23): \<^verbatim>\<open>_get_tonight_date\<close> returns the ISO string of
  yesterday's date when \<open>now.hour < night_end\<close> and of today's date otherwise, where
  yesterday is the valid date whose ordinal is one less than today's. The value is
  computed from the reading passed in and from nothing else: the object is not an
  argument, and what a new session stores as \<open>tonight_date\<close> is this value, whatever was
  stored before.
\<close>

theorem tonight_date_yesterday_or_today:
  assumes "clock_reading now"
  shows "\<exists>yesterday.
           minus_one_day (date_of now) = Inr yesterday \<and> valid_date yesterday \<and>
           toordinal yesterday = toordinal (date_of now) - 1 \<and>
           get_tonight_date cfg now =
             Inr (isoformat (if hour now < night_end cfg then yesterday else date_of now)) \<and>
           (\<forall>ev st. now_tonight ev = now \<longrightarrow>
              tonight_date (snd (new_session cfg ev st)) =
                Some (isoformat (if hour now < night_end cfg then yesterday else date_of now)))"
proof -
  obtain p where p: "minus_one_day (date_of now) = Inr p" "valid_date p"
     "toordinal p = toordinal (date_of now) - 1"
    using assms by (rule clock_reading_yesterday)
  have g: "get_tonight_date cfg now = Inr (isoformat (if hour now < night_end cfg then p else date_of now))"
    using p(1) by (simp add: get_tonight_date_def)
  have n: "tonight_date (snd (new_session cfg ev st)) =
                Some (isoformat (if hour now < night_end cfg then p else date_of now))"
    if "now_tonight ev = now" for ev st
    using that g by (simp add: new_session_def Let_def)
  show ?thesis using p g n by blast
qed

theorem tonight_date_yesterday_or_today_witness:
  "clock_reading (at 2024 3 10 0 20) \<and>
   hour (at 2024 3 10 0 20) < night_end solitude_toml \<and>
   minus_one_day (date_of (at 2024 3 10 0 20)) = Inr \<lparr>year = 2024, month = 3, day = 9\<rparr> \<and>
   toordinal \<lparr>year = 2024, month = 3, day = 9\<rparr> = toordinal (date_of (at 2024 3 10 0 20)) - 1 \<and>
   get_tonight_date solitude_toml (at 2024 3 10 0 20) = Inr ''2024-03-09'' \<and>
   clock_reading (at 2024 3 9 23 40) \<and>
   \<not> hour (at 2024 3 9 23 40) < night_end solitude_toml \<and>
   get_tonight_date solitude_toml (at 2024 3 9 23 40) = Inr ''2024-03-09''"
proof -
  have a: "clock_reading (at 2024 3 10 0 20)" by code_simp
  have b: "clock_reading (at 2024 3 9 23 40)" by code_simp
  have m: "minus_one_day (date_of (at 2024 3 10 0 20)) = Inr \<lparr>year = 2024, month = 3, day = 9\<rparr>"
    by (simp add: minus_one_day_def at_def)
  have i1: "isoformat \<lparr>year = 2024, month = 3, day = 9\<rparr> = ''2024-03-09''" by code_simp
  have i2: "isoformat (date_of (at 2024 3 9 23 40)) = ''2024-03-09''" by code_simp
  from tonight_date_yesterday_or_today [OF a, of solitude_toml] m i1
  have 1: "toordinal \<lparr>year = 2024, month = 3, day = 9\<rparr> = toordinal (date_of (at 2024 3 10 0 20)) - 1"
    and 2: "get_tonight_date solitude_toml (at 2024 3 10 0 20) = Inr ''2024-03-09''"
    by auto
  from tonight_date_yesterday_or_today [OF b, of solitude_toml] i2
  have 3: "get_tonight_date solitude_toml (at 2024 3 9 23 40) = Inr ''2024-03-09''"
    by auto
  show ?thesis using a b m 1 2 3 by simp
qed

section \<open>One first wakeup per night\<close>

lemma last_breath_frame:
  assumes "session_id st \<noteq> None"
  shows "session_id (snd (last_breath cfg ev st)) = session_id st"
    and "tonight_date (snd (last_breath cfg ev st)) = tonight_date st"
  using assms
  by (auto simp: last_breath_def last_breath_setup_def Let_def
           split: prod.splits sum.splits option.splits dest!: build_prompt_frame)

lemma classifications_dates:
  assumes "\<forall>t \<in> set (concat (map readings ws)). clock_reading t"
    and "d \<in> fst ` set (classifications cfg ws st)"
  shows "\<exists>t \<in> set (concat (map readings ws)). d = isoformat (tonight cfg t)"
  using assms
proof (induction ws arbitrary: st)
  case Nil
  then show ?case by simp
next
  case (Cons w ws)
  show ?case
  proof (cases w)
    case (Ordinary ev)
    have g: "get_tonight_date cfg (now_is_first ev) = Inr (isoformat (tonight cfg (now_is_first ev)))"
      using Cons.prems(1) Ordinary by (intro get_tonight_date_tonight) simp
    from Cons.prems(2) Ordinary
    consider "d = isoformat (tonight cfg (now_is_first ev))"
      | "d \<in> fst ` set (classifications cfg ws (fire cfg (Ordinary ev) st))"
      by (auto simp: g split: sum.splits)
    then show ?thesis
    proof cases
      case 1
      then show ?thesis using Ordinary by auto
    next
      case 2
      then have "\<exists>t \<in> set (concat (map readings ws)). d = isoformat (tonight cfg t)"
        using Cons.IH Cons.prems(1) by auto
      then show ?thesis by auto
    qed
  next
    case (Last ev)
    then have "d \<in> fst ` set (classifications cfg ws (fire cfg (Last ev) st))"
      using Cons.prems(2) by simp
    then have "\<exists>t \<in> set (concat (map readings ws)). d = isoformat (tonight cfg t)"
      using Cons.IH Cons.prems(1) by auto
    then show ?thesis by auto
  qed
qed

lemma tonight_same_string:
  assumes "clock_reading a" "clock_reading b"
  shows "isoformat (tonight cfg a) = isoformat (tonight cfg b) \<longleftrightarrow> tonight cfg a = tonight cfg b"
proof
  assume "isoformat (tonight cfg a) = isoformat (tonight cfg b)"
  moreover have "valid_date (tonight cfg a)" using assms(1) by (rule get_tonight_date_tonight)
  moreover have "valid_date (tonight cfg b)" using assms(2) by (rule get_tonight_date_tonight)
  ultimately show "tonight cfg a = tonight cfg b" by (rule isoformat_inj)
next
  assume "tonight cfg a = tonight cfg b"
  then show "isoformat (tonight cfg a) = isoformat (tonight cfg b)" by simp
qed

lemma firsts_Cons: "firsts d ((d', f) # cs) = (if d' = d \<and> f then 1 else 0) + firsts d cs"
  by (simp add: firsts_def)

lemma firsts_Nil: "firsts d [] = 0"
  by (simp add: firsts_def)

lemma firsts_count:
  assumes "session_id st \<noteq> None"
    and "tonight_date st = Some (isoformat (tonight cfg t0))"
    and "clock_reading t0"
    and "\<forall>t \<in> set (concat (map readings ws)). clock_reading t \<and> datetime_key t0 \<le> datetime_key t"
    and "monotone_clock ws"
    and "\<forall>w \<in> set ws. steady_night cfg w"
  shows "firsts d (classifications cfg ws st) =
           (if d \<in> fst ` set (classifications cfg ws st) \<and> d \<noteq> isoformat (tonight cfg t0)
            then 1 else 0)"
  using assms
proof (induction ws arbitrary: st t0)
  case Nil
  then show ?case by (simp add: firsts_Nil)
next
  case (Cons w ws)
  have mono_tl: "monotone_clock ws"
    using Cons.prems(5) by (simp add: monotone_clock_def sorted_wrt_append)
  have steady_tl: "\<forall>w \<in> set ws. steady_night cfg w" using Cons.prems(6) by simp
  show ?case
  proof (cases w)
    case (Last ev)
    let ?st = "fire cfg (Last ev) st"
    have "session_id ?st \<noteq> None" "tonight_date ?st = Some (isoformat (tonight cfg t0))"
      using Cons.prems(1,2) by (simp_all add: last_breath_frame)
    moreover have "\<forall>t \<in> set (concat (map readings ws)). clock_reading t \<and> datetime_key t0 \<le> datetime_key t"
      using Cons.prems(4) by simp
    ultimately have "firsts d (classifications cfg ws ?st) =
           (if d \<in> fst ` set (classifications cfg ws ?st) \<and> d \<noteq> isoformat (tonight cfg t0)
            then 1 else 0)"
      using Cons.prems(3) mono_tl steady_tl by (intro Cons.IH)
    then show ?thesis using Last by simp
  next
    case (Ordinary ev)
    let ?tc = "now_is_first ev"
    let ?st = "fire cfg (Ordinary ev) st"
    let ?n0 = "tonight cfg t0"
    let ?nc = "tonight cfg ?tc"
    have tc: "clock_reading ?tc" "datetime_key t0 \<le> datetime_key ?tc"
      using Cons.prems(4) Ordinary by simp_all
    have ta: "clock_reading (now_tonight ev)" using Cons.prems(4) Ordinary by simp
    have gc: "get_tonight_date cfg ?tc = Inr (isoformat ?nc)"
      using tc(1) by (rule get_tonight_date_tonight)
    have ga: "get_tonight_date cfg (now_tonight ev) = Inr (isoformat ?nc)"
      using Cons.prems(6) Ordinary gc by simp
    define f where "f = (isoformat ?nc \<noteq> isoformat ?n0)"
    have cls: "is_first_breath cfg ?tc st = Inr f"
      using Cons.prems(1,2) gc by (auto simp: is_first_breath_def f_def)
    have st1: "session_id ?st \<noteq> None"
      using heartbeat_session(1) [OF cls ga] Cons.prems(1) by simp
    have st2: "tonight_date ?st = Some (isoformat ?nc)"
      using heartbeat_session(2) [OF cls ga] Cons.prems(2) by (simp add: f_def)
    have later: "\<forall>t \<in> set (concat (map readings ws)). clock_reading t \<and> datetime_key ?tc \<le> datetime_key t"
      using Cons.prems(4,5) Ordinary by (auto simp: monotone_clock_def sorted_wrt_append)
    have IH: "firsts d (classifications cfg ws ?st) =
           (if d \<in> fst ` set (classifications cfg ws ?st) \<and> d \<noteq> isoformat ?nc then 1 else 0)"
      using st1 st2 tc(1) later mono_tl steady_tl by (intro Cons.IH)
    have unfold: "classifications cfg (w # ws) st = (isoformat ?nc, f) # classifications cfg ws ?st"
      using Ordinary gc cls by simp
    have le0: "date_key ?n0 \<le> date_key ?nc"
      using Cons.prems(3) tc by (intro tonight_mono)
    have f_iff: "f \<longleftrightarrow> ?nc \<noteq> ?n0"
      using tonight_same_string [OF tc(1) Cons.prems(3)] by (simp add: f_def)
    show ?thesis
    proof (cases "d = isoformat ?nc")
      case True
      then show ?thesis using IH unfold by (auto simp: firsts_Cons f_def)
    next
      case False
      have "d \<noteq> isoformat ?n0" if mem: "d \<in> fst ` set (classifications cfg ws ?st)"
      proof
        assume d0: "d = isoformat ?n0"
        have all: "\<forall>t \<in> set (concat (map readings ws)). clock_reading t" using later by simp
        obtain t where t: "t \<in> set (concat (map readings ws))" "d = isoformat (tonight cfg t)"
          using classifications_dates [OF all mem] by (elim bexE)
        have ct: "clock_reading t" "datetime_key ?tc \<le> datetime_key t"
          using later t(1) by blast+
        have "isoformat (tonight cfg t) = isoformat ?n0" using t(2) d0 by simp
        then have "tonight cfg t = ?n0"
          using tonight_same_string [OF ct(1) Cons.prems(3), of cfg] by simp
        moreover have "date_key ?nc \<le> date_key (tonight cfg t)"
          using tc(1) ct by (intro tonight_mono)
        ultimately have "date_key ?nc = date_key ?n0" using le0 by simp
        then have "?nc = ?n0" by (rule date_key_inj)
        then show False using False d0 by simp
      qed
      then show ?thesis using IH unfold False by (auto simp: firsts_Cons)
    qed
  qed
qed

text \<open>
  Where the count is right. \<^verbatim>\<open>_is_first_breath\<close> answers true exactly when there is
  no session or the stored night date differs from the one computed from the clock. In
  a run that starts without a session and with an ordinary wakeup, with a clock that
  never goes back and ordinary wakeups whose two date readings fall in the same night,
  every night date computed at an ordinary wakeup has exactly one ordinary wakeup
  classified as first, whatever the agent does at any wakeup (failures and exceptions
  included) and however many last wakeups lie in between.
\<close>

lemma first_once_per_night:
  assumes none: "session_id st = None"
    and clock: "\<forall>t \<in> set (concat (map readings (Ordinary ev # ws))). clock_reading t"
    and mono: "monotone_clock (Ordinary ev # ws)"
    and steady: "\<forall>w \<in> set (Ordinary ev # ws). steady_night cfg w"
  shows "(\<forall>t s d. get_tonight_date cfg t = Inr d \<longrightarrow>
            is_first_breath cfg t s = Inr (session_id s = None \<or> tonight_date s \<noteq> Some d))
       \<and> (\<forall>d \<in> fst ` set (classifications cfg (Ordinary ev # ws) st).
            length (filter (\<lambda>(d', f). d' = d \<and> f) (classifications cfg (Ordinary ev # ws) st)) = 1)"
proof -
  let ?tc = "now_is_first ev"
  let ?st = "fire cfg (Ordinary ev) st"
  let ?nc = "tonight cfg ?tc"
  have iff: "is_first_breath cfg t s = Inr (session_id s = None \<or> tonight_date s \<noteq> Some d)"
    if "get_tonight_date cfg t = Inr d" for t s d
    using that by (simp add: is_first_breath_def)
  have tc: "clock_reading ?tc" using clock by simp
  have gc: "get_tonight_date cfg ?tc = Inr (isoformat ?nc)"
    using tc by (rule get_tonight_date_tonight)
  have ga: "get_tonight_date cfg (now_tonight ev) = Inr (isoformat ?nc)"
    using steady gc by simp
  have cls: "is_first_breath cfg ?tc st = Inr True"
    using none gc by (simp add: is_first_breath_def)
  have st1: "session_id ?st \<noteq> None" using heartbeat_session(1) [OF cls ga] by simp
  have st2: "tonight_date ?st = Some (isoformat ?nc)"
    using heartbeat_session(2) [OF cls ga] by simp
  have later: "\<forall>t \<in> set (concat (map readings ws)). clock_reading t \<and> datetime_key ?tc \<le> datetime_key t"
    using clock mono by (auto simp: monotone_clock_def sorted_wrt_append)
  have mono_tl: "monotone_clock ws"
    using mono by (simp add: monotone_clock_def sorted_wrt_append)
  have steady_tl: "\<forall>w \<in> set ws. steady_night cfg w" using steady by simp
  have rest: "firsts d (classifications cfg ws ?st) =
           (if d \<in> fst ` set (classifications cfg ws ?st) \<and> d \<noteq> isoformat ?nc then 1 else 0)" for d
    using st1 st2 tc later mono_tl steady_tl by (rule firsts_count)
  have unfold: "classifications cfg (Ordinary ev # ws) st =
      (isoformat ?nc, True) # classifications cfg ws ?st"
    using gc cls by simp
  have "firsts d (classifications cfg (Ordinary ev # ws) st) = 1"
    if "d \<in> fst ` set (classifications cfg (Ordinary ev # ws) st)" for d
  proof (cases "d = isoformat ?nc")
    case True
    then show ?thesis unfolding unfold firsts_Cons rest by simp
  next
    case False
    then have "d \<in> fst ` set (classifications cfg ws ?st)" using that unfolding unfold by auto
    then show ?thesis unfolding unfold firsts_Cons rest using False by simp
  qed
  then show ?thesis using iff unfolding firsts_def by blast
qed

lemma march_nights_classified:
  "classifications solitude_toml march_nights started =
     [(''2024-03-09'', True), (''2024-03-09'', False), (''2024-03-10'', True)]"
  by code_simp

lemma first_once_per_night_on_march_nights:
  "session_id started = None \<and>
   list_all clock_reading (concat (map readings march_nights)) \<and>
   monotone_clock march_nights \<and>
   list_all (steady_night solitude_toml) march_nights \<and>
   classifications solitude_toml march_nights started =
     [(''2024-03-09'', True), (''2024-03-09'', False), (''2024-03-10'', True)] \<and>
   firsts ''2024-03-09'' (classifications solitude_toml march_nights started) = 1 \<and>
   firsts ''2024-03-10'' (classifications solitude_toml march_nights started) = 1"
proof -
  define ev where "ev = wake (at 2024 3 9 22 0) uuid_a (CompletedProcess 1 [] ''unavailable'')"
  define ws where "ws =
     [Ordinary (wake (at 2024 3 9 23 40) uuid_b (CompletedProcess 0 ''Still here.'' [])),
      Last (wake (at 2024 3 10 5 0) uuid_b (CompletedProcess 0 ''Sleep well.'' [])),
      Ordinary (wake (at 2024 3 10 22 0) uuid_b (CompletedProcess 0 ''A new night.'' []))]"
  have eq: "march_nights = Ordinary ev # ws"
    by (simp add: march_nights_def first_fails_def ev_def ws_def)
  have a: "session_id started = None" by simp
  have b: "list_all clock_reading (concat (map readings march_nights))" by code_simp
  have c: "monotone_clock march_nights" by code_simp
  have d: "list_all (steady_night solitude_toml) march_nights" by code_simp
  have b': "\<forall>t \<in> set (concat (map readings march_nights)). clock_reading t"
    using b by (simp only: list_all_iff)
  have d': "\<forall>w \<in> set march_nights. steady_night solitude_toml w"
    using d by (simp only: list_all_iff)
  from first_once_per_night [of started ev ws solitude_toml] a b' c d'
  have "\<forall>d \<in> fst ` set (classifications solitude_toml march_nights started).
          firsts d (classifications solitude_toml march_nights started) = 1"
    unfolding eq firsts_def by blast
  moreover have "''2024-03-09'' \<in> fst ` set (classifications solitude_toml march_nights started)"
    "''2024-03-10'' \<in> fst ` set (classifications solitude_toml march_nights started)"
    unfolding march_nights_classified by simp_all
  ultimately show ?thesis using a b c d march_nights_classified by blast
qed

text \<open>
  When the run starts with a last wakeup, the night date that this last wakeup stores
  is the only one without a first wakeup: every other night date computed at an
  ordinary wakeup still has exactly one.
\<close>

lemma last_breath_mints:
  assumes "session_id st = None" and "get_tonight_date cfg (now_tonight ev) = Inr d"
  shows "session_id (snd (last_breath cfg ev st)) = Some (uuid4 ev)"
    and "tonight_date (snd (last_breath cfg ev st)) = Some d"
  using assms
  by (auto simp: last_breath_def last_breath_setup_def new_session_def Let_def
           split: prod.splits sum.splits option.splits dest!: build_prompt_frame)

lemma last_first_runs:
  assumes none: "session_id st = None"
    and clock: "\<forall>t \<in> set (concat (map readings (Last ev # ws))). clock_reading t"
    and mono: "monotone_clock (Last ev # ws)"
    and steady: "\<forall>w \<in> set ws. steady_night cfg w"
  shows "firsts d (classifications cfg (Last ev # ws) st) =
           (if d \<in> fst ` set (classifications cfg (Last ev # ws) st) \<and>
               d \<noteq> isoformat (tonight cfg (now_tonight ev))
            then 1 else 0)"
proof -
  let ?t0 = "now_tonight ev"
  let ?st = "fire cfg (Last ev) st"
  have t0: "clock_reading ?t0" using clock by simp
  have g: "get_tonight_date cfg ?t0 = Inr (isoformat (tonight cfg ?t0))"
    using t0 by (rule get_tonight_date_tonight)
  have st1: "session_id ?st \<noteq> None" using last_breath_mints(1) [OF none g] by simp
  have st2: "tonight_date ?st = Some (isoformat (tonight cfg ?t0))"
    using last_breath_mints(2) [OF none g] by simp
  have later: "\<forall>t \<in> set (concat (map readings ws)). clock_reading t \<and> datetime_key ?t0 \<le> datetime_key t"
    using clock mono by (auto simp: monotone_clock_def sorted_wrt_append)
  have mono_tl: "monotone_clock ws"
    using mono by (simp add: monotone_clock_def sorted_wrt_append)
  have "firsts d (classifications cfg ws ?st) =
           (if d \<in> fst ` set (classifications cfg ws ?st) \<and> d \<noteq> isoformat (tonight cfg ?t0)
            then 1 else 0)"
    using st1 st2 t0 later mono_tl steady by (rule firsts_count)
  then show ?thesis by simp
qed

text \<open>
  When the clock passes \<open>night_end\<close> between the two readings of a first wakeup, the
  date stored is the next night's, and that night has no first wakeup either.
\<close>

lemma straddling_classified:
  "monotone_clock straddling \<and>
   list_all clock_reading (concat (map readings straddling)) \<and>
   classifications solitude_toml straddling started =
     [(''2024-03-09'', True), (''2024-03-10'', False)]"
proof -
  have "monotone_clock straddling" by code_simp
  moreover have "list_all clock_reading (concat (map readings straddling))" by code_simp
  moreover have "classifications solitude_toml straddling started =
     [(''2024-03-09'', True), (''2024-03-10'', False)]" by code_simp
  ultimately show ?thesis by simp
qed

text \<open>
  C2. A run on which the code does not give one first wakeup per night date. The daemon
  starts shortly before 05:00 and the last wakeup fires first: \<^verbatim>\<open>last_breath\<close> finds no
  session, takes a new identity and stores the night date computed at 05:00, which is
  the date of the day that begins (the hour is not before \<open>night_end\<close>). The ordinary
  wakeup at 22:00 of that day computes the same date, finds it stored and is classified
  as middle: both commands of the run resume the session made at 05:00, and the night
  of 10 March has no first wakeup. Had a session been there at 05:00, the last wakeup
  would have kept the date of the closing night and the wakeup at 22:00 would have been
  first.
\<close>

theorem late_start_night_without_first:
  "session_id started = None \<and>
   list_all clock_reading (concat (map readings late_start)) \<and>
   monotone_clock late_start \<and>
   list_all (steady_night solitude_toml) late_start \<and>
   get_tonight_date solitude_toml (at 2024 3 10 5 0) = Inr ''2024-03-10'' \<and>
   get_tonight_date solitude_toml (at 2024 3 10 22 0) = Inr ''2024-03-10'' \<and>
   classifications solitude_toml late_start started = [(''2024-03-10'', False)] \<and>
   firsts ''2024-03-10'' (classifications solitude_toml late_start started) = 0 \<and>
   map (take 3) (commands (fire_all solitude_toml late_start started)) =
     [[''/usr/bin/claude'', ''--resume'', uuid_a], [''/usr/bin/claude'', ''--resume'', uuid_a]] \<and>
   classifications solitude_toml late_start awake = [(''2024-03-10'', True)]"
proof -
  have "list_all clock_reading (concat (map readings late_start))" by code_simp
  moreover have "monotone_clock late_start" by code_simp
  moreover have "list_all (steady_night solitude_toml) late_start" by code_simp
  moreover have "get_tonight_date solitude_toml (at 2024 3 10 5 0) = Inr ''2024-03-10''" by code_simp
  moreover have "get_tonight_date solitude_toml (at 2024 3 10 22 0) = Inr ''2024-03-10''" by code_simp
  moreover have "classifications solitude_toml late_start started = [(''2024-03-10'', False)]"
    by code_simp
  moreover have "firsts ''2024-03-10'' (classifications solitude_toml late_start started) = 0"
    by code_simp
  moreover have "map (take 3) (commands (fire_all solitude_toml late_start started)) =
     [[''/usr/bin/claude'', ''--resume'', uuid_a], [''/usr/bin/claude'', ''--resume'', uuid_a]]"
    by code_simp
  moreover have "classifications solitude_toml late_start awake = [(''2024-03-10'', True)]"
    by code_simp
  ultimately show ?thesis by simp
qed

section \<open>The output log\<close>

lemma run_claude_writes:
  assumes "subprocess_run ev = CompletedProcess 0 out err" and "out \<noteq> []"
  shows "output_files (run_claude ev cmd f m st) =
           (let name = fmt (tonight_date st) @ ''.log'';
                old = (case output_files st name of None \<Rightarrow> [] | Some c \<Rightarrow> c);
                block = (if f then ''=== Night of '' @ fmt (tonight_date st) @ '' ===\<newline>'' @
                                   ''Session: '' @ fmt (session_id st) @ ''\<newline>\<newline>''
                         else []) @
                        ''--- '' @ time_str (now_log ev) @ '' ---\<newline>'' @ strip out @ ''\<newline>\<newline>''
            in case file_write ev of
                 Written \<Rightarrow> (output_files st)(name \<mapsto> old @ block)
               | WriteFailed k msg \<Rightarrow> (output_files st)(name \<mapsto> old @ take k block)
               | OpenFailed msg \<Rightarrow> output_files st)"
  using assms
  by (cases "file_write ev")
     (simp_all add: run_claude_def log_output_def get_output_log_path_def Let_def)

lemma run_claude_no_write:
  assumes "\<forall>out err. subprocess_run ev = CompletedProcess 0 out err \<longrightarrow> out = []"
  shows "output_files (run_claude ev cmd f m st) = output_files st"
proof (cases "subprocess_run ev")
  case (CompletedProcess rc out err)
  show ?thesis
  proof (cases "rc = 0")
    case True
    then have "out = []" using assms CompletedProcess by simp
    then show ?thesis using CompletedProcess True by (simp add: run_claude_def Let_def)
  next
    case False
    then show ?thesis using CompletedProcess by (simp add: run_claude_def Let_def)
  qed
next
  case TimeoutExpired
  then show ?thesis by (simp add: run_claude_def Let_def)
next
  case (RunFailed e)
  then show ?thesis by (simp add: run_claude_def Let_def)
qed

lemma heartbeat_setup_files:
  "output_files (snd (heartbeat_setup cfg ev st)) = output_files st"
  by (auto simp: heartbeat_setup_def new_session_def Let_def
           split: sum.splits prod.splits option.splits dest!: build_prompt_frame)

lemma last_breath_setup_files:
  "output_files (snd (last_breath_setup cfg ev st)) = output_files st"
  by (auto simp: last_breath_setup_def new_session_def Let_def
           split: sum.splits prod.splits option.splits dest!: build_prompt_frame)

text \<open>
  C5, as the code has it. A handler writes to an output file only when the agent
  returns code 0 with non-empty output, and then it writes one block to the file named
  after the stored night date. The block is the timestamp line \<open>--- time ---\<close>, the
  stripped output and two newlines; it begins with the two header lines naming the
  night date and the session exactly when it is written by an ordinary wakeup
  classified as first, so a block written by a middle or a last wakeup has the
  timestamp line only. When the file system fails, what reaches the file is an initial
  part of that block (nothing when the file cannot be opened).
\<close>

theorem output_block_headers:
  "(\<forall>out err. subprocess_run ev = CompletedProcess 0 out err \<and> out \<noteq> [] \<longrightarrow>
      (\<forall>f cmd st1. heartbeat_setup cfg ev st = (Inr (f, cmd), st1) \<longrightarrow>
         is_first_breath cfg (now_is_first ev) st = Inr f \<and>
         output_files (snd (heartbeat cfg ev st)) =
           (let name = fmt (tonight_date st1) @ ''.log'';
                old = (case output_files st name of None \<Rightarrow> [] | Some c \<Rightarrow> c);
                block = (if f then ''=== Night of '' @ fmt (tonight_date st1) @ '' ===\<newline>'' @
                                   ''Session: '' @ fmt (session_id st1) @ ''\<newline>\<newline>''
                         else []) @
                        ''--- '' @ time_str (now_log ev) @ '' ---\<newline>'' @ strip out @ ''\<newline>\<newline>''
            in case file_write ev of
                 Written \<Rightarrow> (output_files st)(name \<mapsto> old @ block)
               | WriteFailed k msg \<Rightarrow> (output_files st)(name \<mapsto> old @ take k block)
               | OpenFailed msg \<Rightarrow> output_files st)) \<and>
      (\<forall>cmd st1. last_breath_setup cfg ev st = (Inr cmd, st1) \<longrightarrow>
         output_files (snd (last_breath cfg ev st)) =
           (let name = fmt (tonight_date st1) @ ''.log'';
                old = (case output_files st name of None \<Rightarrow> [] | Some c \<Rightarrow> c);
                block = ''--- '' @ time_str (now_log ev) @ '' ---\<newline>'' @ strip out @ ''\<newline>\<newline>''
            in case file_write ev of
                 Written \<Rightarrow> (output_files st)(name \<mapsto> old @ block)
               | WriteFailed k msg \<Rightarrow> (output_files st)(name \<mapsto> old @ take k block)
               | OpenFailed msg \<Rightarrow> output_files st)))
   \<and> ((\<forall>out err. subprocess_run ev = CompletedProcess 0 out err \<longrightarrow> out = []) \<longrightarrow>
        output_files (snd (heartbeat cfg ev st)) = output_files st \<and>
        output_files (snd (last_breath cfg ev st)) = output_files st)
   \<and> ((\<exists>e st1. heartbeat_setup cfg ev st = (Inl e, st1)) \<longrightarrow>
        output_files (snd (heartbeat cfg ev st)) = output_files st)
   \<and> ((\<exists>e st1. last_breath_setup cfg ev st = (Inl e, st1)) \<longrightarrow>
        output_files (snd (last_breath cfg ev st)) = output_files st)"
proof -
  have hb_raise: "output_files (snd (heartbeat cfg ev st)) = output_files st"
    if "heartbeat_setup cfg ev st = (Inl e, st1)" for e st1
    using that heartbeat_setup_files [of cfg ev st] by (simp add: heartbeat_def)
  have lb_raise: "output_files (snd (last_breath cfg ev st)) = output_files st"
    if "last_breath_setup cfg ev st = (Inl e, st1)" for e st1
    using that last_breath_setup_files [of cfg ev st] by (simp add: last_breath_def)
  have hb_none: "output_files (snd (heartbeat cfg ev st)) = output_files st"
    if na: "\<forall>out err. subprocess_run ev = CompletedProcess 0 out err \<longrightarrow> out = []"
  proof (cases "heartbeat_setup cfg ev st")
    case (Pair r st1)
    then have f: "output_files st1 = output_files st"
      using heartbeat_setup_files [of cfg ev st] by simp
    show ?thesis
    proof (cases r)
      case (Inl e)
      then show ?thesis using Pair hb_raise by simp
    next
      case (Inr fc)
      then show ?thesis using Pair f run_claude_no_write [OF na]
        by (cases fc) (simp add: heartbeat_def)
    qed
  qed
  have lb_none: "output_files (snd (last_breath cfg ev st)) = output_files st"
    if na: "\<forall>out err. subprocess_run ev = CompletedProcess 0 out err \<longrightarrow> out = []"
  proof (cases "last_breath_setup cfg ev st")
    case (Pair r st1)
    then have f: "output_files st1 = output_files st"
      using last_breath_setup_files [of cfg ev st] by simp
    show ?thesis
    proof (cases r)
      case (Inl e)
      then show ?thesis using Pair lb_raise by simp
    next
      case (Inr c)
      then show ?thesis using Pair f run_claude_no_write [OF na]
        by (simp add: last_breath_def)
    qed
  qed
  have hb_app: "is_first_breath cfg (now_is_first ev) st = Inr f \<and>
         output_files (snd (heartbeat cfg ev st)) =
           (let name = fmt (tonight_date st1) @ ''.log'';
                old = (case output_files st name of None \<Rightarrow> [] | Some c \<Rightarrow> c);
                block = (if f then ''=== Night of '' @ fmt (tonight_date st1) @ '' ===\<newline>'' @
                                   ''Session: '' @ fmt (session_id st1) @ ''\<newline>\<newline>''
                         else []) @
                        ''--- '' @ time_str (now_log ev) @ '' ---\<newline>'' @ strip out @ ''\<newline>\<newline>''
            in case file_write ev of
                 Written \<Rightarrow> (output_files st)(name \<mapsto> old @ block)
               | WriteFailed k msg \<Rightarrow> (output_files st)(name \<mapsto> old @ take k block)
               | OpenFailed msg \<Rightarrow> output_files st)"
    if ok: "subprocess_run ev = CompletedProcess 0 out err" "out \<noteq> []"
      and su: "heartbeat_setup cfg ev st = (Inr (f, cmd), st1)" for out err f cmd st1
    using heartbeat_setup_reached(1,2) [OF su] run_claude_writes [OF ok, of cmd f _ st1] su
    by (cases "file_write ev") (simp_all add: heartbeat_def Let_def)
  have lb_app: "output_files (snd (last_breath cfg ev st)) =
           (let name = fmt (tonight_date st1) @ ''.log'';
                old = (case output_files st name of None \<Rightarrow> [] | Some c \<Rightarrow> c);
                block = ''--- '' @ time_str (now_log ev) @ '' ---\<newline>'' @ strip out @ ''\<newline>\<newline>''
            in case file_write ev of
                 Written \<Rightarrow> (output_files st)(name \<mapsto> old @ block)
               | WriteFailed k msg \<Rightarrow> (output_files st)(name \<mapsto> old @ take k block)
               | OpenFailed msg \<Rightarrow> output_files st)"
    if ok: "subprocess_run ev = CompletedProcess 0 out err" "out \<noteq> []"
      and su: "last_breath_setup cfg ev st = (Inr cmd, st1)" for out err cmd st1
  proof -
    have "output_files st1 = output_files st"
      using su last_breath_setup_files [of cfg ev st] by simp
    then show ?thesis using run_claude_writes [OF ok, of cmd False _ st1] su
      by (cases "file_write ev") (simp_all add: last_breath_def Let_def)
  qed
  show ?thesis
    apply (intro conjI allI impI)
    subgoal for out err f cmd st1 using hb_app [of out err f cmd st1] by simp
    subgoal for out err f cmd st1 using hb_app [of out err f cmd st1] by simp
    subgoal for out err cmd st1 using lb_app [of out err cmd st1] by simp
    subgoal using hb_none by simp
    subgoal using lb_none by simp
    subgoal using hb_raise by blast
    subgoal using lb_raise by blast
    done
qed

theorem output_block_headers_witness:
  "output_files
     (snd (heartbeat solitude_toml
             (wake (at 2024 3 9 22 0) uuid_a (CompletedProcess 0 ''Hello.'' [])) started))
     ''2024-03-09.log'' =
     Some (''=== Night of 2024-03-09 ===\<newline>Session: '' @ uuid_a @
           ''\<newline>\<newline>--- 10:00 PM ---\<newline>Hello.\<newline>\<newline>'') \<and>
   output_files
     (snd (heartbeat solitude_toml
             ((wake (at 2024 3 9 22 0) uuid_a (CompletedProcess 0 ''Hello.'' []))
                \<lparr>file_write := WriteFailed 10 ''No space left on device''\<rparr>) started))
     ''2024-03-09.log'' = Some ''=== Night '' \<and>
   output_files
     (snd (heartbeat solitude_toml
             ((wake (at 2024 3 9 22 0) uuid_a (CompletedProcess 0 ''Hello.'' []))
                \<lparr>file_write := OpenFailed ''Permission denied''\<rparr>) started)) =
     output_files started \<and>
   output_files
     (snd (heartbeat solitude_toml
             (wake (at 2024 3 9 23 40) uuid_b (CompletedProcess 0 ''Still here.'' [])) awake))
     ''2024-03-09.log'' = Some ''--- 11:40 PM ---\<newline>Still here.\<newline>\<newline>'' \<and>
   output_files
     (snd (last_breath solitude_toml
             (wake (at 2024 3 10 5 0) uuid_b (CompletedProcess 0 ''Sleep well.'' [])) awake))
     ''2024-03-09.log'' = Some ''--- 5:00 AM ---\<newline>Sleep well.\<newline>\<newline>'' \<and>
   output_files
     (snd (heartbeat solitude_toml (wake (at 2024 3 9 23 40) uuid_b TimeoutExpired) awake)) =
     output_files awake \<and>
   output_files
     (snd (last_breath solitude_toml (wake (at 2024 3 10 5 0) uuid_b TimeoutExpired) awake)) =
     output_files awake \<and>
   output_files
     (snd (heartbeat solitude_toml
             ((wake (at 2024 3 9 22 0) uuid_a (CompletedProcess 0 ''Hello.'' []))
                \<lparr>first_breath_read := ReadFailed (OtherError ''Permission denied'')\<rparr>) started)) =
     output_files started \<and>
   output_files
     (snd (last_breath solitude_toml
             ((wake (at 2024 3 10 5 0) uuid_b (CompletedProcess 0 ''Sleep well.'' []))
                \<lparr>last_breath_read := ReadFailed (OtherError ''Permission denied'')\<rparr>) awake)) =
     output_files awake"
proof -
  let ?e1 = "wake (at 2024 3 9 22 0) uuid_a (CompletedProcess 0 ''Hello.'' [])"
  let ?e1w = "?e1\<lparr>file_write := WriteFailed 10 ''No space left on device''\<rparr>"
  let ?e1o = "?e1\<lparr>file_write := OpenFailed ''Permission denied''\<rparr>"
  let ?e2 = "wake (at 2024 3 9 23 40) uuid_b (CompletedProcess 0 ''Still here.'' [])"
  let ?e3 = "wake (at 2024 3 10 5 0) uuid_b (CompletedProcess 0 ''Sleep well.'' [])"
  let ?e4 = "wake (at 2024 3 9 23 40) uuid_b TimeoutExpired"
  let ?e5 = "wake (at 2024 3 10 5 0) uuid_b TimeoutExpired"
  let ?e6 = "?e1\<lparr>first_breath_read := ReadFailed (OtherError ''Permission denied'')\<rparr>"
  let ?e7 = "?e3\<lparr>last_breath_read := ReadFailed (OtherError ''Permission denied'')\<rparr>"
  note hdr = output_block_headers
  note hb_writes = hdr [THEN conjunct1, rule_format, THEN conjunct1, rule_format, THEN conjunct2]
  note lb_writes = hdr [THEN conjunct1, rule_format, THEN conjunct2, rule_format]
  note no_write = hdr [THEN conjunct2, THEN conjunct1, rule_format]
  note hb_raises = hdr [THEN conjunct2, THEN conjunct2, THEN conjunct1, rule_format]
  note lb_raises = hdr [THEN conjunct2, THEN conjunct2, THEN conjunct2, rule_format]
  have s: "strip ''Hello.'' = ''Hello.''" "strip ''Still here.'' = ''Still here.''"
    "strip ''Sleep well.'' = ''Sleep well.''" by code_simp+
  have t: "time_str (at 2024 3 9 22 0) = ''10:00 PM''" by code_simp
  have n: "get_tonight_date solitude_toml (at 2024 3 9 22 0) = Inr ''2024-03-09''" by code_simp
  \<comment> \<open>a first wakeup that succeeds: written in full, cut after ten characters, not opened\<close>
  have r1: "\<exists>cmd. fst (heartbeat_setup solitude_toml ev started) = Inr (True, cmd)"
    if "now_is_first ev = at 2024 3 9 22 0" "now_tonight ev = at 2024 3 9 22 0"
       "first_breath_read ev = Text ''Good evening.''" for ev
    using that
    by (simp add: heartbeat_setup_def is_first_breath_def n new_session_def build_prompt_def
                  split: prod.splits)
  have d1: "tonight_date st1 = Some ''2024-03-09'' \<and> session_id st1 = Some (uuid4 ev)"
    if "heartbeat_setup solitude_toml ev started = (Inr (True, cmd), st1)"
       "now_tonight ev = at 2024 3 9 22 0" for ev cmd st1
    using heartbeat_setup_reached(4,5,6) [OF that(1)] that(2) by (auto simp: n fmt_def)
  obtain cmd1 st1 where su1: "heartbeat_setup solitude_toml ?e1 started = (Inr (True, cmd1), st1)"
    using r1 [of ?e1] by (metis (no_types) prod.collapse wake_fields(1,2,6))
  have ok1: "subprocess_run ?e1 = CompletedProcess 0 ''Hello.'' [] \<and> ''Hello.'' \<noteq> []" by simp
  have 1: "output_files (snd (heartbeat solitude_toml ?e1 started)) ''2024-03-09.log'' =
     Some (''=== Night of 2024-03-09 ===\<newline>Session: '' @ uuid_a @
           ''\<newline>\<newline>--- 10:00 PM ---\<newline>Hello.\<newline>\<newline>'')"
    using hb_writes [OF ok1 su1] d1 [OF su1] by (simp add: s t fmt_def Let_def)
  have "\<exists>cmd. fst (heartbeat_setup solitude_toml ?e1w started) = Inr (True, cmd)"
    by (rule r1) simp_all
  then obtain cmd1w st1w where
    su1w: "heartbeat_setup solitude_toml ?e1w started = (Inr (True, cmd1w), st1w)"
    by (metis (no_types) prod.collapse)
  have ok1w: "subprocess_run ?e1w = CompletedProcess 0 ''Hello.'' [] \<and> ''Hello.'' \<noteq> []" by simp
  have w1: "output_files (snd (heartbeat solitude_toml ?e1w started)) ''2024-03-09.log'' =
     Some ''=== Night ''"
    using hb_writes [OF ok1w su1w] d1 [OF su1w] by (simp add: s t fmt_def Let_def)
  have "\<exists>cmd. fst (heartbeat_setup solitude_toml ?e1o started) = Inr (True, cmd)"
    by (rule r1) simp_all
  then obtain cmd1o st1o where
    su1o: "heartbeat_setup solitude_toml ?e1o started = (Inr (True, cmd1o), st1o)"
    by (metis (no_types) prod.collapse)
  have ok1o: "subprocess_run ?e1o = CompletedProcess 0 ''Hello.'' [] \<and> ''Hello.'' \<noteq> []" by simp
  have o1: "output_files (snd (heartbeat solitude_toml ?e1o started)) = output_files started"
    using hb_writes [OF ok1o su1o] by (simp add: Let_def)
  \<comment> \<open>a middle wakeup that succeeds\<close>
  have "\<exists>cmd. fst (heartbeat_setup solitude_toml ?e2 awake) = Inr (False, cmd)"
    by (simp add: heartbeat_setup_def is_first_breath_def night_at_2340 build_prompt_def
                  split: prod.splits)
  then obtain cmd2 st2 where su2: "heartbeat_setup solitude_toml ?e2 awake = (Inr (False, cmd2), st2)"
    by (metis (no_types) prod.collapse)
  have d2: "tonight_date st2 = Some ''2024-03-09''"
    using heartbeat_setup_reached(5,6) [OF su2] by (auto simp: night_at_2340 fmt_def)
  have ok2: "subprocess_run ?e2 = CompletedProcess 0 ''Still here.'' [] \<and> ''Still here.'' \<noteq> []"
    by simp
  have 2: "output_files (snd (heartbeat solitude_toml ?e2 awake)) ''2024-03-09.log'' =
     Some ''--- 11:40 PM ---\<newline>Still here.\<newline>\<newline>''"
    using hb_writes [OF ok2 su2] d2 by (simp add: s time_str_2340 fmt_def Let_def)
  \<comment> \<open>a last wakeup that succeeds\<close>
  have "\<exists>cmd. fst (last_breath_setup solitude_toml ?e3 awake) = Inr cmd"
    by (simp add: last_breath_setup_def build_prompt_def split: prod.splits)
  then obtain cmd3 st3 where su3: "last_breath_setup solitude_toml ?e3 awake = (Inr cmd3, st3)"
    by (metis (no_types) prod.collapse)
  have "st3 = snd (last_breath_setup solitude_toml ?e3 awake)" using su3 by simp
  then have d3: "tonight_date st3 = Some ''2024-03-09''"
    by (simp add: last_breath_setup_def build_prompt_def)
  have ok3: "subprocess_run ?e3 = CompletedProcess 0 ''Sleep well.'' [] \<and> ''Sleep well.'' \<noteq> []"
    by simp
  have 3: "output_files (snd (last_breath solitude_toml ?e3 awake)) ''2024-03-09.log'' =
     Some ''--- 5:00 AM ---\<newline>Sleep well.\<newline>\<newline>''"
    using lb_writes [OF ok3 su3] d3 by (simp add: s time_str_0500 fmt_def Let_def)
  \<comment> \<open>the agent times out\<close>
  have 4: "output_files (snd (heartbeat solitude_toml ?e4 awake)) = output_files awake"
    using no_write [of ?e4 solitude_toml awake] by simp
  have 5: "output_files (snd (last_breath solitude_toml ?e5 awake)) = output_files awake"
    using no_write [of ?e5 solitude_toml awake] by simp
  \<comment> \<open>a template cannot be read\<close>
  have "\<exists>e st1. heartbeat_setup solitude_toml ?e6 started = (Inl e, st1)"
    by (simp add: heartbeat_setup_def is_first_breath_def n new_session_def build_prompt_def)
  then have 6: "output_files (snd (heartbeat solitude_toml ?e6 started)) = output_files started"
    by (rule hb_raises)
  have "\<exists>e st1. last_breath_setup solitude_toml ?e7 awake = (Inl e, st1)"
    by (simp add: last_breath_setup_def build_prompt_def)
  then have 7: "output_files (snd (last_breath solitude_toml ?e7 awake)) = output_files awake"
    by (rule lb_raises)
  show ?thesis using 1 w1 o1 2 3 4 5 6 7 by blast
qed

text \<open>
  C5 as stated fails when the first wakeup of the night appends nothing: here the agent
  exits with code 1 at 22:00 and answers at 23:40, so the first block of the file of
  9 March is the one of a middle wakeup, without the night header.
\<close>

theorem first_block_without_night_header:
  "classifications solitude_toml first_fails started =
     [(''2024-03-09'', True), (''2024-03-09'', False)] \<and>
   output_files started ''2024-03-09.log'' = None \<and>
   output_files (fire_all solitude_toml [hd first_fails] started) ''2024-03-09.log'' = None \<and>
   output_files (fire_all solitude_toml first_fails started) ''2024-03-09.log'' =
     Some ''--- 11:40 PM ---\<newline>Still here.\<newline>\<newline>''"
proof -
  have "classifications solitude_toml first_fails started =
     [(''2024-03-09'', True), (''2024-03-09'', False)]" by code_simp
  moreover have "output_files (fire_all solitude_toml [hd first_fails] started) ''2024-03-09.log'' = None"
    by code_simp
  moreover have "output_files (fire_all solitude_toml first_fails started) ''2024-03-09.log'' =
     Some ''--- 11:40 PM ---\<newline>Still here.\<newline>\<newline>''" by code_simp
  ultimately show ?thesis by simp
qed

end
